theory Spec2Isabelle
  imports Main "HOL-Library.Sublist" "HOL-Library.Char_ord" "HOL-Library.List_Lexorder"
    "HOL-Library.Word"
begin

section \<open>Python strings\<close>

text \<open>
  Strings are lists of characters. The operations below are the methods of Python's
  \<^verbatim>\<open>str\<close> that \<^verbatim>\<open>sacred/dependencies.py\<close> and the \<^verbatim>\<open>posixpath\<close> functions it calls
  rely on.
\<close>

text \<open>\<^verbatim>\<open>s.rfind(c)\<close>: the index of the last occurrence of \<open>c\<close>, or \<open>-1\<close>.\<close>

definition rfind :: "char \<Rightarrow> string \<Rightarrow> int" where
  "rfind c s =
     (if c \<in> set s then int (length s) - 1 - int (length (takeWhile (\<lambda>x. x \<noteq> c) (rev s)))
      else - 1)"

text \<open>\<^verbatim>\<open>s.rstrip(c)\<close> for a single character \<open>c\<close>.\<close>

definition rstrip :: "char \<Rightarrow> string \<Rightarrow> string" where
  "rstrip c s = rev (dropWhile (\<lambda>x. x = c) (rev s))"

text \<open>\<^verbatim>\<open>s.startswith(p)\<close> and \<^verbatim>\<open>s.endswith(p)\<close>.\<close>

definition startswith :: "string \<Rightarrow> string \<Rightarrow> bool" where
  "startswith s p = (take (length p) s = p)"

definition endswith :: "string \<Rightarrow> string \<Rightarrow> bool" where
  "endswith s p = (length p \<le> length s \<and> drop (length s - length p) s = p)"

text \<open>
  \<^verbatim>\<open>s.split(c)\<close> with an explicit separator: empty pieces are kept, and the empty
  string splits into one empty piece.
\<close>

fun str_split :: "char \<Rightarrow> string \<Rightarrow> string list" where
  "str_split c [] = [[]]"
| "str_split c (x # xs) =
     (if x = c then [] # str_split c xs
      else (case str_split c xs of
              [] \<Rightarrow> [[x]]
            | p # ps \<Rightarrow> (x # p) # ps))"

text \<open>\<^verbatim>\<open>c.join(parts)\<close>.\<close>

fun str_join :: "string \<Rightarrow> string list \<Rightarrow> string" where
  "str_join c [] = []"
| "str_join c [p] = p"
| "str_join c (p # q # ps) = p @ c @ str_join c (q # ps)"

text \<open>\<^verbatim>\<open>sub in s\<close> for strings: \<open>sub\<close> occurs as a contiguous substring of \<open>s\<close>.\<close>

fun str_contains :: "string \<Rightarrow> string \<Rightarrow> bool" where
  "str_contains [] sub = (sub = [])"
| "str_contains (x # xs) sub = (take (length sub) (x # xs) = sub \<or> str_contains xs sub)"

section \<open>The \<^verbatim>\<open>posixpath\<close> functions the module calls\<close>

text \<open>
  \<^verbatim>\<open>os.path\<close> is the standard library's \<^verbatim>\<open>posixpath\<close>. Each definition follows the
  library function of the same name; the current working directory, which
  \<^verbatim>\<open>abspath\<close> reads from the process, is the explicit argument \<open>cwd\<close>.
\<close>

datatype error =
    ValueError string
  | AssertionError
  | IOError string
  | KeyError string
  | TypeError
  | AttributeError string

definition sep :: char where
  "sep = CHR ''/''"

text \<open>
  \<^verbatim>\<open>posixpath.split\<close>:
  \<^verbatim>\<open>
  i = p.rfind(sep) + 1
  head, tail = p[:i], p[i:]
  if head and head != sep*len(head):
      head = head.rstrip(sep)
  return head, tail
  \<close>
\<close>

definition path_split :: "string \<Rightarrow> string \<times> string" where
  "path_split p =
     (let i = nat (rfind sep p + 1);
          head = take i p;
          tail = drop i p
      in (if head \<noteq> [] \<and> head \<noteq> replicate (length head) sep then rstrip sep head else head,
          tail))"

text \<open>
  \<^verbatim>\<open>posixpath.splitext\<close> (\<^verbatim>\<open>genericpath._splitext\<close>): the extension starts at the last
  dot after the last separator, unless only dots precede it in the file name.
  \<^verbatim>\<open>
  sepIndex = p.rfind(sep)
  dotIndex = p.rfind(extsep)
  if dotIndex > sepIndex:
      filenameIndex = sepIndex + 1
      while filenameIndex < dotIndex:
          if p[filenameIndex:filenameIndex+1] != extsep:
              return p[:dotIndex], p[dotIndex:]
          filenameIndex += 1
  return p, p[:0]
  \<close>
\<close>

definition splitext :: "string \<Rightarrow> string \<times> string" where
  "splitext p =
     (let sepIndex = rfind sep p;
          dotIndex = rfind (CHR ''.'') p
      in if dotIndex > sepIndex
            \<and> (\<exists>c \<in> set (take (nat (dotIndex - (sepIndex + 1))) (drop (nat (sepIndex + 1)) p)).
                  c \<noteq> CHR ''.'')
         then (take (nat dotIndex) p, drop (nat dotIndex) p)
         else (p, []))"

text \<open>
  \<^verbatim>\<open>posixpath.join(a, b)\<close>:
  \<^verbatim>\<open>
  if b.startswith(sep): path = b
  elif not path or path.endswith(sep): path += b
  else: path += sep + b
  \<close>
\<close>

definition path_join :: "string \<Rightarrow> string \<Rightarrow> string" where
  "path_join a b =
     (if startswith b [sep] then b
      else if a = [] \<or> endswith a [sep] then a @ b
      else a @ [sep] @ b)"

text \<open>
  The loop of \<^verbatim>\<open>posixpath.normpath\<close> over the components:
  \<^verbatim>\<open>
  if comp in ('', '.'): continue
  if (comp != '..' or (not initial_slashes and not new_comps) or
          (new_comps and new_comps[-1] == '..')):
      new_comps.append(comp)
  elif new_comps:
      new_comps.pop()
  \<close>
\<close>

fun normpath_comps :: "bool \<Rightarrow> string list \<Rightarrow> string list \<Rightarrow> string list" where
  "normpath_comps initial_slashes [] new_comps = new_comps"
| "normpath_comps initial_slashes (c # comps) new_comps =
     (if c = [] \<or> c = ''.'' then normpath_comps initial_slashes comps new_comps
      else if c \<noteq> ''..'' \<or> (\<not> initial_slashes \<and> new_comps = [])
              \<or> (new_comps \<noteq> [] \<and> last new_comps = ''..'')
           then normpath_comps initial_slashes comps (new_comps @ [c])
      else if new_comps \<noteq> [] then normpath_comps initial_slashes comps (butlast new_comps)
      else normpath_comps initial_slashes comps new_comps)"

text \<open>
  \<^verbatim>\<open>posixpath.normpath\<close>: the empty path is \<^verbatim>\<open>'.'\<close>; exactly two leading slashes are
  kept, three or more collapse to one.
\<close>

definition normpath :: "string \<Rightarrow> string" where
  "normpath path =
     (if path = [] then ''.''
      else
        let initial_slashes =
              (if startswith path [sep] then
                 (if startswith path [sep, sep] \<and> \<not> startswith path [sep, sep, sep]
                  then 2 else 1)
               else (0::nat));
            comps = normpath_comps (initial_slashes \<noteq> 0) (str_split sep path) [];
            path' = replicate initial_slashes sep @ str_join [sep] comps
        in if path' = [] then ''.'' else path')"

text \<open>\<^verbatim>\<open>posixpath.abspath\<close>: join with the working directory unless absolute, then normalise.\<close>

definition abspath :: "string \<Rightarrow> string \<Rightarrow> string" where
  "abspath cwd path =
     normpath (if startswith path [sep] then path else path_join cwd path)"

text \<open>\<^verbatim>\<open>posixpath.dirname\<close>: the head of \<^verbatim>\<open>split\<close>.\<close>

definition dirname :: "string \<Rightarrow> string" where
  "dirname p = fst (path_split p)"

text \<open>The longest common prefix of two component lists (\<^verbatim>\<open>commonprefix\<close> on two lists).\<close>

fun commonprefix :: "string list \<Rightarrow> string list \<Rightarrow> string list" where
  "commonprefix (x # xs) (y # ys) = (if x = y then x # commonprefix xs ys else [])"
| "commonprefix _ _ = []"

text \<open>
  \<^verbatim>\<open>posixpath.relpath(path, start)\<close>:
  \<^verbatim>\<open>
  if not path: raise ValueError("no path specified")
  start_list = [x for x in abspath(start).split(sep) if x]
  path_list = [x for x in abspath(path).split(sep) if x]
  i = len(commonprefix([start_list, path_list]))
  rel_list = [pardir] * (len(start_list)-i) + path_list[i:]
  if not rel_list: return curdir
  return join(*rel_list)
  \<close>
\<close>

definition relpath :: "string \<Rightarrow> string \<Rightarrow> string \<Rightarrow> error + string" where
  "relpath cwd path start =
     (if path = [] then Inl (ValueError ''no path specified'')
      else
        let start_list = filter (\<lambda>x. x \<noteq> []) (str_split sep (abspath cwd start));
            path_list = filter (\<lambda>x. x \<noteq> []) (str_split sep (abspath cwd path));
            i = length (commonprefix start_list path_list);
            rel_list = replicate (length start_list - i) ''..'' @ drop i path_list
        in if rel_list = [] then Inr ''.''
           else Inr (foldl path_join (hd rel_list) (tl rel_list)))"

section \<open>Path to module parts\<close>

text \<open>
  \<^verbatim>\<open>splitall\<close> (lines 189-224): the loop peels the last component off \<open>path\<close> with
  \<^verbatim>\<open>os.path.split\<close> and inserts it at the front of \<open>allparts\<close>, until the split
  returns the path itself as head (absolute paths) or as tail (relative paths).
\<close>

lemma fst_path_split_prefix: "prefix (fst (path_split p)) p"
proof -
  have "prefix (rstrip sep (take i p)) (take i p)" for i
  proof -
    have "take i p = rstrip sep (take i p) @ rev (takeWhile (\<lambda>x. x = sep) (rev (take i p)))"
      unfolding rstrip_def
      by (metis rev_append rev_rev_ident takeWhile_dropWhile_id)
    then show ?thesis
      by (metis prefixI)
  qed
  moreover have "prefix (take i p) p" for i
    by (rule take_is_prefix)
  ultimately show ?thesis
    unfolding path_split_def Let_def
    by (auto intro: prefix_order.trans)
qed

lemma fst_path_split_shorter:
  assumes "fst (path_split p) \<noteq> p"
  shows "length (fst (path_split p)) < length p"
proof -
  have "prefix (fst (path_split p)) p"
    by (rule fst_path_split_prefix)
  then have "strict_prefix (fst (path_split p)) p"
    using assms by (simp add: strict_prefix_def)
  then show ?thesis
    by (rule prefix_length_less)
qed

function splitall_loop :: "string \<Rightarrow> string list \<Rightarrow> string list" where
  "splitall_loop path allparts =
     (let parts = path_split path
      in if fst parts = path then fst parts # allparts
         else if snd parts = path then snd parts # allparts
         else splitall_loop (fst parts) (snd parts # allparts))"
  by pat_completeness auto
termination
  by (relation "measure (\<lambda>(path, allparts). length path)")
     (auto simp: fst_path_split_shorter)

declare splitall_loop.simps [simp del]

definition splitall :: "string \<Rightarrow> string list" where
  "splitall path = splitall_loop path []"

text \<open>
  \<^verbatim>\<open>convert_path_to_module_parts\<close> (lines 227-236). \<^verbatim>\<open>module_parts[-1]\<close> is the last
  element; \<^verbatim>\<open>splitall\<close> never returns the empty list (lemma \<open>splitall_nonempty\<close>
  below), so the index is always in range.
\<close>

definition convert_path_to_module_parts :: "string \<Rightarrow> string list" where
  "convert_path_to_module_parts path =
     (let module_parts = splitall path
      in if last module_parts \<in> set [''__init__.py'', ''__init__.pyc'']
         then butlast module_parts
         else butlast module_parts @ [fst (splitext (last module_parts))])"

section \<open>Local source or not\<close>

text \<open>
  Modelled from the spec: \<^verbatim>\<open>is_subdir\<close> of \<^verbatim>\<open>sacred.utils\<close> (imported at line 16, its
  body is not among the sources). The specification says of it only that
  \<^verbatim>\<open>is_local_source\<close> "returns false immediately if filename is not underneath
  basePath": the components of the absolute base path are a prefix of the components
  of the absolute file name.
\<close>

definition path_components :: "string \<Rightarrow> string list" where
  "path_components p = filter (\<lambda>x. x \<noteq> []) (str_split sep p)"

definition is_subdir :: "string \<Rightarrow> string \<Rightarrow> string \<Rightarrow> bool" where
  "is_subdir cwd path directory =
     prefix (path_components (abspath cwd directory)) (path_components (abspath cwd path))"

text \<open>
  \<^verbatim>\<open>is_local_source\<close> (lines 239-275). \<^verbatim>\<open>os.path.relpath\<close> raises on the empty file
  name, so the result is an error or a truth value. \<^verbatim>\<open>zip\<close> stops at the shorter of
  its two arguments, as HOL's \<open>zip\<close> does.
\<close>

definition is_local_source :: "string \<Rightarrow> string \<Rightarrow> string \<Rightarrow> string \<Rightarrow> error + bool" where
  "is_local_source cwd filename modname experiment_path =
     (if \<not> is_subdir cwd filename experiment_path then Inr False
      else
        case relpath cwd filename experiment_path of
          Inl e \<Rightarrow> Inl e
        | Inr rel_path \<Rightarrow>
            let path_parts = convert_path_to_module_parts rel_path;
                mod_parts = str_split (CHR ''.'') modname
            in if path_parts = mod_parts then Inr True
               else if length path_parts > length mod_parts then Inr False
               else
                 let abs_path_parts = convert_path_to_module_parts (abspath cwd filename)
                 in Inr (list_all (\<lambda>(p, m). p = m) (zip (rev abs_path_parts) (rev mod_parts))))"

section \<open>Values, modules and the environment\<close>

text \<open>
  The attribute values \<^verbatim>\<open>get_version_heuristic\<close> distinguishes: a string, a tuple (of
  integers and strings, which \<^verbatim>\<open>str\<close> renders), or anything else.
\<close>

datatype pyatom = AInt int | AStr string

datatype pyvalue = VStr string | VTuple "pyatom list" | VOther

text \<open>
  A module object, as far as the code looks at it: \<^verbatim>\<open>__file__\<close> and \<^verbatim>\<open>__name__\<close>
  (either may be missing) and its other attributes by name.
\<close>

record pymodule =
  mod_file :: "string option"
  mod_name :: "string option"
  mod_attrs :: "(string \<times> pyvalue) list"

text \<open>
  A value bound in a namespace (\<^verbatim>\<open>globs\<close>): \<^verbatim>\<open>None\<close>, a string, an integer
  (booleans apart), another falsy value without a \<^verbatim>\<open>__module__\<close> attribute
  (\<^verbatim>\<open>False\<close>, an empty tuple) with what \<^verbatim>\<open>str\<close> renders it as, a module, or another
  truthy object with its \<^verbatim>\<open>__module__\<close> attribute when it has one.
\<close>

datatype pyobject =
    ONone
  | OStr string
  | OInt int
  | OFalsy string
  | OModule pymodule
  | OOther "string option"

type_synonym namespace = "(string \<times> pyobject) list"

type_synonym bytes = "8 word list"

text \<open>What \<^verbatim>\<open>git.Repo\<close> exposes to \<^verbatim>\<open>get_commit_if_possible\<close>.\<close>

record git_repo =
  remote_url :: "string option"
  working_dir :: string
  repo_is_dirty :: bool
  head_commit_hexsha :: string

text \<open>
  Everything the module reads from outside itself: the working directory, the file
  system (\<open>fd_exists\<close> tells the open file descriptors, which \<^verbatim>\<open>os.path.exists\<close>
  looks up for an integer), \<^verbatim>\<open>hashlib\<close>, the interpreter's hash of strings and of
  \<^verbatim>\<open>None\<close>, gitpython,
  \<^verbatim>\<open>sys.modules\<close>, \<^verbatim>\<open>sys.builtin_module_names\<close>, \<^verbatim>\<open>os.walk\<close>,
  \<^verbatim>\<open>pkg_resources.working_set\<close>, the two entries of \<^verbatim>\<open>SETTINGS\<close> and \<^verbatim>\<open>opt.np\<close>.
\<close>

record env =
  getcwd :: string
  path_exists :: "string \<Rightarrow> bool"
  fd_exists :: "int \<Rightarrow> bool"
  file_content :: "string \<Rightarrow> bytes option"
  md5_hexdigest :: "bytes \<Rightarrow> string"
  str_hash :: "string \<Rightarrow> int"
  none_hash :: int
  has_gitpython :: bool
  git_Repo :: "string \<Rightarrow> git_repo option"
  sys_modules :: "(string \<times> pymodule option) list"
  builtin_module_names :: "string list"
  os_walk :: "string \<Rightarrow> (string \<times> string list \<times> string list) list"
  working_set :: "(string \<times> string) list"
  DISCOVER_SOURCES :: string
  DISCOVER_DEPENDENCIES :: string
  numpy :: "pymodule option"

text \<open>
  A Python \<^verbatim>\<open>set\<close> is a list without two equal elements, in insertion order;
  \<^verbatim>\<open>add\<close> leaves the set alone when it holds an element of the same hash that
  compares equal.
\<close>

definition pyset_add :: "('a \<Rightarrow> int) \<Rightarrow> ('a \<Rightarrow> 'a \<Rightarrow> bool) \<Rightarrow> 'a \<Rightarrow> 'a list \<Rightarrow> 'a list" where
  "pyset_add h eq x xs = (if \<exists>y \<in> set xs. h y = h x \<and> eq y x then xs else xs @ [x])"

section \<open>Digest and version control\<close>

definition MB :: nat where
  "MB = 1048576"

text \<open>
  \<^verbatim>\<open>get_py_file_if_possible\<close> (lines 35-43); the \<^verbatim>\<open>assert\<close> fails on a name that ends
  in neither \<^verbatim>\<open>.py\<close> nor \<^verbatim>\<open>.pyc\<close>.
\<close>

definition get_py_file_if_possible :: "env \<Rightarrow> string \<Rightarrow> error + string" where
  "get_py_file_if_possible e pyc_name =
     (if endswith pyc_name ''.py'' then Inr pyc_name
      else if \<not> endswith pyc_name ''.pyc'' then Inl AssertionError
      else
        let non_compiled_file = butlast pyc_name
        in if path_exists e non_compiled_file then Inr non_compiled_file
           else Inr pyc_name)"

text \<open>
  The hash object of \<^verbatim>\<open>hashlib.md5()\<close> is modelled by the bytes fed to it so far:
  \<^verbatim>\<open>update\<close> appends, and \<^verbatim>\<open>hexdigest\<close> is the environment's MD5 of all of them
  (hashlib's contract: repeated calls of \<^verbatim>\<open>update\<close> are one call on the
  concatenation).
\<close>

definition md5_update :: "bytes \<Rightarrow> bytes \<Rightarrow> bytes" where
  "md5_update h data = h @ data"

text \<open>
  The loop of \<^verbatim>\<open>get_digest\<close> (lines 50-53) with chunk size \<open>n\<close>: \<open>data\<close> is the chunk
  just read, \<open>f\<close> the bytes of the file not yet read; \<^verbatim>\<open>f.read(n)\<close> returns the next
  \<open>n\<close> bytes (fewer at the end of the file) and advances.
\<close>

function get_digest_loop :: "nat \<Rightarrow> bytes \<Rightarrow> bytes \<Rightarrow> bytes \<Rightarrow> bytes" where
  "get_digest_loop n h data f =
     (if data \<noteq> [] then get_digest_loop n (md5_update h data) (take n f) (drop n f)
      else h)"
  by pat_completeness auto
termination
  by (relation "measure (\<lambda>(n, h, data, f). 2 * length f + (if data = [] then 0 else 1))")
     auto

declare get_digest_loop.simps [simp del]

text \<open>\<^verbatim>\<open>get_digest\<close> (lines 46-54); \<^verbatim>\<open>open\<close> fails on a file that cannot be read.\<close>

definition get_digest :: "env \<Rightarrow> string \<Rightarrow> error + string" where
  "get_digest e fname =
     (case file_content e fname of
        None \<Rightarrow> Inl (IOError fname)
      | Some content \<Rightarrow>
          Inr (md5_hexdigest e
                 (get_digest_loop (1 * MB) [] (take (1 * MB) content) (drop (1 * MB) content))))"

text \<open>
  \<^verbatim>\<open>get_commit_if_possible\<close> (lines 57-90): \<^verbatim>\<open>git_Repo\<close> is \<open>None\<close> where
  \<^verbatim>\<open>Repo(directory, search_parent_directories=True)\<close> raises
  \<^verbatim>\<open>InvalidGitRepositoryError\<close>, and \<^verbatim>\<open>remote_url\<close> is \<open>None\<close> where
  \<^verbatim>\<open>repo.remote()\<close> raises \<^verbatim>\<open>ValueError\<close>.
\<close>

definition get_commit_if_possible ::
    "env \<Rightarrow> string \<Rightarrow> string option \<times> string option \<times> bool option" where
  "get_commit_if_possible e fname =
     (if has_gitpython e then
        (case git_Repo e (dirname fname) of
           Some r \<Rightarrow>
             (Some (case remote_url r of Some url \<Rightarrow> url | None \<Rightarrow> ''git:/'' @ working_dir r),
              Some (head_commit_hexsha r),
              Some (repo_is_dirty r))
         | None \<Rightarrow> (None, None, None))
      else (None, None, None))"

section \<open>Source\<close>

record source =
  filename :: string
  digest :: string
  repo :: "string option"
  commit :: "string option"
  is_dirty :: "bool option"

text \<open>The message of the \<^verbatim>\<open>ValueError\<close> of \<^verbatim>\<open>Source.create\<close>, for the formatted argument.\<close>

definition invalid_filename_message :: "string \<Rightarrow> string" where
  "invalid_filename_message shown =
     ''invalid filename or file not found '' @ [CHR 0x22] @ shown @ [CHR 0x22]"

text \<open>
  \<^verbatim>\<open>Source.create\<close> (lines 102-110). The argument is \<^verbatim>\<open>None\<close> or a string;
  \<^verbatim>\<open>not filename\<close> holds of \<^verbatim>\<open>None\<close> and of the empty string.
\<close>

definition Source_create :: "env \<Rightarrow> string option \<Rightarrow> error + source" where
  "Source_create e arg =
     (case arg of
        None \<Rightarrow> Inl (ValueError (invalid_filename_message ''None''))
      | Some fname \<Rightarrow>
          if fname = [] \<or> \<not> path_exists e fname
          then Inl (ValueError (invalid_filename_message fname))
          else
            case get_py_file_if_possible e (abspath (getcwd e) fname) of
              Inl err \<Rightarrow> Inl err
            | Inr main_file \<Rightarrow>
                (case get_commit_if_possible e main_file of
                   (r, c, d) \<Rightarrow>
                     (case get_digest e main_file of
                        Inl err \<Rightarrow> Inl err
                      | Inr dg \<Rightarrow>
                          Inr \<lparr>filename = main_file, digest = dg, repo = r,
                               commit = c, is_dirty = d\<rparr>)))"

text \<open>\<^verbatim>\<open>Source.to_json\<close> (lines 112-116).\<close>

definition Source_to_json :: "env \<Rightarrow> source \<Rightarrow> string option \<Rightarrow> error + string \<times> string" where
  "Source_to_json e self base_dir =
     (case base_dir of
        None \<Rightarrow> Inr (filename self, digest self)
      | Some b \<Rightarrow>
          if b = [] then Inr (filename self, digest self)
          else (case relpath (getcwd e) (filename self) b of
                  Inl err \<Rightarrow> Inl err
                | Inr rel \<Rightarrow> Inr (rel, digest self)))"

text \<open>
  The right operand of a comparison with a \<^verbatim>\<open>Source\<close>: another \<^verbatim>\<open>Source\<close>, a string, or
  anything else.
\<close>

datatype operand = OpSource source | OpStr string | OpOther

text \<open>\<^verbatim>\<open>Source.__hash__\<close> (lines 118-119) and \<^verbatim>\<open>Source.__eq__\<close> (lines 121-127).\<close>

definition Source_hash :: "env \<Rightarrow> source \<Rightarrow> int" where
  "Source_hash e self = str_hash e (filename self)"

definition Source_eq :: "source \<Rightarrow> operand \<Rightarrow> bool" where
  "Source_eq self other =
     (case other of
        OpSource s \<Rightarrow> filename self = filename s
      | OpStr s \<Rightarrow> filename self = s
      | OpOther \<Rightarrow> False)"

text \<open>
  \<^verbatim>\<open>Source.__le__\<close> (lines 129-130), the lexicographic order of the file names, and the
  three comparisons \<^verbatim>\<open>functools.total_ordering\<close> derives from it and \<^verbatim>\<open>__eq__\<close>.
\<close>

definition Source_le :: "source \<Rightarrow> source \<Rightarrow> bool" where
  "Source_le self other = (filename self \<le> filename other)"

definition Source_lt :: "source \<Rightarrow> source \<Rightarrow> bool" where
  "Source_lt self other = (Source_le self other \<and> \<not> Source_eq self (OpSource other))"

definition Source_gt :: "source \<Rightarrow> source \<Rightarrow> bool" where
  "Source_gt self other = (\<not> Source_le self other)"

definition Source_ge :: "source \<Rightarrow> source \<Rightarrow> bool" where
  "Source_ge self other = (\<not> Source_le self other \<or> Source_eq self (OpSource other))"

text \<open>
  The sets of sources hold \<^verbatim>\<open>Source\<close> objects and, after
  \<^verbatim>\<open>gather_sources_and_dependencies\<close>, possibly \<^verbatim>\<open>None\<close>: hash and equality of their
  elements.
\<close>

definition element_hash :: "env \<Rightarrow> source option \<Rightarrow> int" where
  "element_hash e x = (case x of None \<Rightarrow> none_hash e | Some s \<Rightarrow> Source_hash e s)"

definition element_eq :: "source option \<Rightarrow> source option \<Rightarrow> bool" where
  "element_eq x y =
     (case x of
        None \<Rightarrow> y = None
      | Some s \<Rightarrow> (case y of None \<Rightarrow> Source_eq s OpOther | Some t \<Rightarrow> Source_eq s (OpSource t)))"

definition sources_add :: "env \<Rightarrow> source option \<Rightarrow> source option list \<Rightarrow> source option list" where
  "sources_add e x xs = pyset_add (element_hash e) element_eq x xs"

text \<open>
  \<^verbatim>\<open>filename in sources\<close> for a string: an element of the same hash that compares
  equal to it.
\<close>

definition str_in_sources :: "env \<Rightarrow> string \<Rightarrow> source option list \<Rightarrow> bool" where
  "str_in_sources e fname xs =
     (\<exists>x \<in> set xs. case x of
          None \<Rightarrow> False
        | Some s \<Rightarrow> Source_hash e s = str_hash e fname \<and> Source_eq s (OpStr fname))"

section \<open>PackageDependency\<close>

record package_dependency =
  name :: string
  version :: "string option"

text \<open>
  A regular expression of the shape \<^verbatim>\<open>PEP440_VERSION_PATTERN\<close> uses: a character
  class, a literal, sequence, alternative, option, a class repeated (\<^verbatim>\<open>*\<close>, \<^verbatim>\<open>+\<close>),
  the look-behind \<^verbatim>\<open>(?<=[...])\<close> and \<^verbatim>\<open>$\<close>.
\<close>

datatype regex =
    Cls string
  | Lit string
  | Seq regex regex
  | Alt regex regex
  | Opt regex
  | StarCls string
  | PlusCls string
  | LookBehind string
  | EndOfString

text \<open>
  A position in the subject is the character before it, if any, and the rest of the
  string. \<open>star_ends\<close> lists the positions after any number of characters of the class,
  longest first, and \<open>cls_ends\<close> the position after one character of the class.
  Characters are bytes, and \<^verbatim>\<open>\d\<close> is the class of the ten ASCII digits.
\<close>

fun star_ends :: "string \<Rightarrow> char option \<times> string \<Rightarrow> (char option \<times> string) list" where
  "star_ends cs (prev, []) = [(prev, [])]"
| "star_ends cs (prev, c # rest) =
     (if c \<in> set cs then star_ends cs (Some c, rest) @ [(prev, c # rest)]
      else [(prev, c # rest)])"

text \<open>
  \<open>regex_ends r pos\<close> lists the positions at which a match of \<open>r\<close> starting at \<open>pos\<close>
  can end. \<^verbatim>\<open>$\<close> (without \<^verbatim>\<open>re.MULTILINE\<close>) holds at the end of the string and just
  before a newline that ends it.
\<close>

fun cls_ends :: "string \<Rightarrow> char option \<times> string \<Rightarrow> (char option \<times> string) list" where
  "cls_ends cs (prev, []) = []"
| "cls_ends cs (prev, c # rest) = (if c \<in> set cs then [(Some c, rest)] else [])"

fun regex_ends :: "regex \<Rightarrow> char option \<times> string \<Rightarrow> (char option \<times> string) list" where
  "regex_ends (Cls cs) pos = cls_ends cs pos"
| "regex_ends (Lit l) (prev, s) =
     (if l = [] then [(prev, s)]
      else if take (length l) s = l then [(Some (last l), drop (length l) s)]
      else [])"
| "regex_ends (Seq a b) pos = concat (map (regex_ends b) (regex_ends a pos))"
| "regex_ends (Alt a b) pos = regex_ends a pos @ regex_ends b pos"
| "regex_ends (Opt a) pos = regex_ends a pos @ [pos]"
| "regex_ends (StarCls cs) pos = star_ends cs pos"
| "regex_ends (PlusCls cs) pos = concat (map (star_ends cs) (cls_ends cs pos))"
| "regex_ends (LookBehind cs) (prev, s) =
     (case prev of None \<Rightarrow> [] | Some c \<Rightarrow> if c \<in> set cs then [(prev, s)] else [])"
| "regex_ends EndOfString (prev, s) = (if s = [] \<or> s = [CHR 0x0A] then [(prev, s)] else [])"

text \<open>\<^verbatim>\<open>pattern.match(s)\<close> is not \<^verbatim>\<open>None\<close>: some match starts at the beginning of \<open>s\<close>.\<close>

definition regex_match :: "regex \<Rightarrow> string \<Rightarrow> bool" where
  "regex_match r s = (regex_ends r (None, s) \<noteq> [])"

definition digits :: string where
  "digits = ''0123456789''"

text \<open>
  \<^verbatim>\<open>PEP440_VERSION_PATTERN\<close> (lines 24-32). Under \<^verbatim>\<open>re.VERBOSE\<close> the white space and
  the comments of the pattern are dropped, which leaves
  \<^verbatim>\<open>^(\d+!)?(\d[.\d]*(?<=\d))((?:[abc]|rc)\d+)?(?:(\.post\d+))?(?:(\.dev\d+))?$\<close>;
  \<^verbatim>\<open>match\<close> anchors at the start, which is all \<^verbatim>\<open>^\<close> asks for.
\<close>

definition PEP440_VERSION_PATTERN :: regex where
  "PEP440_VERSION_PATTERN =
     Seq (Opt (Seq (PlusCls digits) (Lit ''!'')))
    (Seq (Seq (Cls digits) (Seq (StarCls (''.'' @ digits)) (LookBehind digits)))
    (Seq (Opt (Seq (Alt (Cls ''abc'') (Lit ''rc'')) (PlusCls digits)))
    (Seq (Opt (Seq (Lit ''.post'') (PlusCls digits)))
    (Seq (Opt (Seq (Lit ''.dev'') (PlusCls digits)))
         EndOfString))))"

text \<open>\<^verbatim>\<open>str(n)\<close> for an integer: its decimal digits, with a minus sign when negative.\<close>

fun str_nat :: "nat \<Rightarrow> string" where
  "str_nat n = (if n < 10 then [digits ! n] else str_nat (n div 10) @ [digits ! (n mod 10)])"

declare str_nat.simps [simp del]

definition str_int :: "int \<Rightarrow> string" where
  "str_int i = (if i < 0 then ''-'' @ str_nat (nat (- i)) else str_nat (nat i))"

definition str_atom :: "pyatom \<Rightarrow> string" where
  "str_atom a = (case a of AInt i \<Rightarrow> str_int i | AStr s \<Rightarrow> s)"

text \<open>\<^verbatim>\<open>hasattr(mod, vattr)\<close> and \<^verbatim>\<open>getattr(mod, vattr)\<close> in one: the attribute, if any.\<close>

definition getattr :: "pymodule \<Rightarrow> string \<Rightarrow> pyvalue option" where
  "getattr m vattr = map_of (mod_attrs m) vattr"

text \<open>
  The body of the loop of \<^verbatim>\<open>get_version_heuristic\<close> (lines 171-178) for one attribute
  value: the version it returns, or \<open>None\<close> when the loop goes on.
\<close>

definition version_of_value :: "pyvalue \<Rightarrow> string option" where
  "version_of_value v =
     (case v of
        VStr s \<Rightarrow> if regex_match PEP440_VERSION_PATTERN s then Some s else None
      | VTuple ns \<Rightarrow>
          let joined = str_join ''.'' (map str_atom ns)
          in if regex_match PEP440_VERSION_PATTERN joined then Some joined else None
      | VOther \<Rightarrow> None)"

fun version_attribute_loop :: "pymodule \<Rightarrow> string list \<Rightarrow> string option" where
  "version_attribute_loop m [] = None"
| "version_attribute_loop m (vattr # rest) =
     (case getattr m vattr of
        None \<Rightarrow> version_attribute_loop m rest
      | Some v \<Rightarrow>
          (case version_of_value v of
             Some found \<Rightarrow> Some found
           | None \<Rightarrow> version_attribute_loop m rest))"

definition possible_version_attributes :: "string list" where
  "possible_version_attributes = [''__version__'', ''VERSION'', ''version'']"

text \<open>\<^verbatim>\<open>PackageDependency.get_version_heuristic\<close> (lines 166-180).\<close>

definition get_version_heuristic :: "pymodule \<Rightarrow> string option" where
  "get_version_heuristic m = version_attribute_loop m possible_version_attributes"

text \<open>
  \<^verbatim>\<open>PackageDependency.create\<close> (lines 182-186); \<^verbatim>\<open>mod.__name__\<close> raises
  \<^verbatim>\<open>AttributeError\<close> on a module without a name.
\<close>

definition PackageDependency_create :: "pymodule \<Rightarrow> error + package_dependency" where
  "PackageDependency_create m =
     (case mod_name m of
        None \<Rightarrow> Inl (AttributeError ''__name__'')
      | Some modname \<Rightarrow> Inr \<lparr>name = modname, version = get_version_heuristic m\<rparr>)"

text \<open>
  \<^verbatim>\<open>PackageDependency.__hash__\<close>, \<^verbatim>\<open>__eq__\<close> (against another dependency) and
  \<^verbatim>\<open>__le__\<close> (lines 151-161), \<^verbatim>\<open>to_json\<close> and \<^verbatim>\<open>fill_missing_version\<close>
  (lines 142-149).
\<close>

definition PackageDependency_hash :: "env \<Rightarrow> package_dependency \<Rightarrow> int" where
  "PackageDependency_hash e self = str_hash e (name self)"

definition PackageDependency_eq :: "package_dependency \<Rightarrow> package_dependency \<Rightarrow> bool" where
  "PackageDependency_eq self other = (name self = name other)"

definition PackageDependency_le :: "package_dependency \<Rightarrow> package_dependency \<Rightarrow> bool" where
  "PackageDependency_le self other = (name self \<le> name other)"

definition fill_missing_version :: "env \<Rightarrow> package_dependency \<Rightarrow> package_dependency" where
  "fill_missing_version e self =
     (if version self \<noteq> None then self
      else (case map_of (working_set e) (name self) of
              Some v \<Rightarrow> self\<lparr>version := Some v\<rparr>
            | None \<Rightarrow> self\<lparr>version := Some ''<unknown>''\<rparr>))"

definition PackageDependency_to_json :: "package_dependency \<Rightarrow> string" where
  "PackageDependency_to_json self =
     name self @ ''=='' @ (case version self of None \<Rightarrow> ''None'' | Some v \<Rightarrow> v)"

definition dependencies_add ::
    "env \<Rightarrow> package_dependency \<Rightarrow> package_dependency list \<Rightarrow> package_dependency list" where
  "dependencies_add e x xs = pyset_add (PackageDependency_hash e) PackageDependency_eq x xs"

section \<open>Scanning the loaded modules\<close>

text \<open>
  \<^verbatim>\<open>get_main_file\<close> (lines 278-287). \<^verbatim>\<open>globs.get('__file__')\<close> is \<^verbatim>\<open>None\<close> for a
  namespace without the key and for one that binds it to \<^verbatim>\<open>None\<close>. Any other value
  goes to \<^verbatim>\<open>Source.create\<close>, whose test \<^verbatim>\<open>not filename or not os.path.exists(filename)\<close>
  raises \<^verbatim>\<open>ValueError\<close> for a falsy value and for an integer that is no open file
  descriptor; for an integer that is one, \<^verbatim>\<open>os.path.abspath\<close> raises \<^verbatim>\<open>TypeError\<close>,
  and for a module or another truthy object \<^verbatim>\<open>os.path.exists\<close> does (Python 3).
\<close>

definition get_main_file :: "env \<Rightarrow> namespace \<Rightarrow> error + string \<times> source option" where
  "get_main_file e globs =
     (case map_of globs ''__file__'' of
        None \<Rightarrow> Inr (abspath (getcwd e) ''.'', None)
      | Some ONone \<Rightarrow> Inr (abspath (getcwd e) ''.'', None)
      | Some (OStr f) \<Rightarrow>
          (case Source_create e (Some f) of
             Inl err \<Rightarrow> Inl err
           | Inr main \<Rightarrow> Inr (dirname (filename main), Some main))
      | Some (OInt i) \<Rightarrow>
          if i = 0 \<or> \<not> fd_exists e i
          then Inl (ValueError (invalid_filename_message (str_int i)))
          else Inl TypeError
      | Some (OFalsy shown) \<Rightarrow> Inl (ValueError (invalid_filename_message shown))
      | Some (OModule m) \<Rightarrow> Inl TypeError
      | Some (OOther a) \<Rightarrow> Inl TypeError)"

text \<open>
  \<^verbatim>\<open>MODULE_BLACKLIST\<close> (lines 21-22), without its element \<^verbatim>\<open>None\<close>, which no module
  name equals.
\<close>

definition MODULE_BLACKLIST :: "env \<Rightarrow> string list" where
  "MODULE_BLACKLIST e =
     [''__future__'', ''__main__'', ''hashlib'', ''os'', ''re''] @ builtin_module_names e"

text \<open>
  Modelled from the spec: \<^verbatim>\<open>iter_prefixes\<close> of \<^verbatim>\<open>sacred.utils\<close> (imported at line 16,
  its body is not among the sources). The specification: "walk all dotted-name
  prefixes of its originating module path (e.g. for a.b.c also consider a.b and a)".
\<close>

definition iter_prefixes :: "string \<Rightarrow> string list" where
  "iter_prefixes path =
     map (\<lambda>i. str_join ''.'' (take i (str_split (CHR ''.'') path)))
         [1 ..< Suc (length (str_split (CHR ''.'') path))]"

text \<open>
  The inner loop of \<^verbatim>\<open>iterate_imported_modules\<close> (lines 303-309): the names checked
  so far, and the pairs it yields.
\<close>

fun iterate_prefixes_loop ::
    "env \<Rightarrow> string list \<Rightarrow> string list \<Rightarrow> string list \<times> (string \<times> pymodule) list" where
  "iterate_prefixes_loop e [] checked_modules = (checked_modules, [])"
| "iterate_prefixes_loop e (modname # rest) checked_modules =
     (if modname \<in> set checked_modules then iterate_prefixes_loop e rest checked_modules
      else
        case iterate_prefixes_loop e rest (modname # checked_modules) of
          (checked', yielded) \<Rightarrow>
            (case map_of (sys_modules e) modname of
               Some (Some m) \<Rightarrow> (checked', (modname, m) # yielded)
             | _ \<Rightarrow> (checked', yielded)))"

text \<open>
  The outer loop of \<^verbatim>\<open>iterate_imported_modules\<close> (lines 292-301) over the values of
  the namespace.
\<close>

fun iterate_imported_modules_loop ::
    "env \<Rightarrow> pyobject list \<Rightarrow> string list \<Rightarrow> error + (string \<times> pymodule) list" where
  "iterate_imported_modules_loop e [] checked_modules = Inr []"
| "iterate_imported_modules_loop e (glob # rest) checked_modules =
     (case (case glob of
              OModule m \<Rightarrow>
                (case mod_name m of
                   None \<Rightarrow> Inl (AttributeError ''__name__'')
                 | Some n \<Rightarrow> Inr (Some n))
            | OOther (Some n) \<Rightarrow> Inr (Some n)
            | _ \<Rightarrow> Inr None) of
        Inl err \<Rightarrow> Inl err
      | Inr None \<Rightarrow> iterate_imported_modules_loop e rest checked_modules
      | Inr (Some mod_path) \<Rightarrow>
          if mod_path = [] then iterate_imported_modules_loop e rest checked_modules
          else
            (case iterate_prefixes_loop e (iter_prefixes mod_path) checked_modules of
               (checked', yielded) \<Rightarrow>
                 (case iterate_imported_modules_loop e rest checked' of
                    Inl err \<Rightarrow> Inl err
                  | Inr later \<Rightarrow> Inr (yielded @ later))))"

definition iterate_imported_modules :: "env \<Rightarrow> namespace \<Rightarrow> error + (string \<times> pymodule) list" where
  "iterate_imported_modules e globs =
     iterate_imported_modules_loop e (map snd globs) (MODULE_BLACKLIST e)"

text \<open>
  \<^verbatim>\<open>iterate_all_python_files\<close> (lines 312-319): \<^verbatim>\<open>'__pycache__' in dirname\<close> is a
  substring test.
\<close>

definition iterate_all_python_files :: "env \<Rightarrow> string \<Rightarrow> string list" where
  "iterate_all_python_files e base_path =
     concat (map (\<lambda>(dname, subdirlist, filelist).
                    if str_contains dname ''__pycache__'' then []
                    else map (\<lambda>f. path_join (path_join base_path dname) f)
                             (filter (\<lambda>f. endswith f ''.py'') filelist))
                 (os_walk e base_path))"

text \<open>\<^verbatim>\<open>iterate_sys_modules\<close> (lines 322-326).\<close>

definition iterate_sys_modules :: "env \<Rightarrow> (string \<times> pymodule) list" where
  "iterate_sys_modules e =
     concat (map (\<lambda>(modname, m).
                    case m of
                      None \<Rightarrow> []
                    | Some m' \<Rightarrow> if modname \<notin> set (MODULE_BLACKLIST e) then [(modname, m')] else [])
                 (sys_modules e))"

section \<open>The classifier\<close>

text \<open>
  \<^verbatim>\<open>get_sources_from_modules\<close> (lines 329-340): the loop over the pairs of the
  iterator, with the set built so far.
\<close>

fun get_sources_from_modules_loop ::
    "env \<Rightarrow> (string \<times> pymodule) list \<Rightarrow> string \<Rightarrow> source option list
       \<Rightarrow> error + source option list" where
  "get_sources_from_modules_loop e [] base_path sources = Inr sources"
| "get_sources_from_modules_loop e ((modname, m) # rest) base_path sources =
     (case mod_file m of
        None \<Rightarrow> get_sources_from_modules_loop e rest base_path sources
      | Some f \<Rightarrow>
          let fname = abspath (getcwd e) f
          in if str_in_sources e fname sources
             then get_sources_from_modules_loop e rest base_path sources
             else
               (case is_local_source (getcwd e) fname modname base_path of
                  Inl err \<Rightarrow> Inl err
                | Inr False \<Rightarrow> get_sources_from_modules_loop e rest base_path sources
                | Inr True \<Rightarrow>
                    (case Source_create e (Some fname) of
                       Inl err \<Rightarrow> Inl err
                     | Inr s \<Rightarrow>
                         get_sources_from_modules_loop e rest base_path
                           (sources_add e (Some s) sources))))"

definition get_sources_from_modules ::
    "env \<Rightarrow> (string \<times> pymodule) list \<Rightarrow> string \<Rightarrow> error + source option list" where
  "get_sources_from_modules e module_iterator base_path =
     get_sources_from_modules_loop e module_iterator base_path []"

text \<open>
  The test at the head of the loop of \<^verbatim>\<open>get_dependencies_from_modules\<close>
  (lines 346-347): the module has a file and that file is local source.
\<close>

definition has_local_file :: "env \<Rightarrow> string \<Rightarrow> pymodule \<Rightarrow> string \<Rightarrow> error + bool" where
  "has_local_file e modname m base_path =
     (case mod_file m of
        None \<Rightarrow> Inr False
      | Some f \<Rightarrow> is_local_source (getcwd e) (abspath (getcwd e) f) modname base_path)"

text \<open>
  \<^verbatim>\<open>get_dependencies_from_modules\<close> (lines 343-356); the \<^verbatim>\<open>AttributeError\<close> of
  \<^verbatim>\<open>PackageDependency.create\<close> is caught and the module passed over.
\<close>

fun get_dependencies_from_modules_loop ::
    "env \<Rightarrow> (string \<times> pymodule) list \<Rightarrow> string \<Rightarrow> package_dependency list
       \<Rightarrow> error + package_dependency list" where
  "get_dependencies_from_modules_loop e [] base_path dependencies = Inr dependencies"
| "get_dependencies_from_modules_loop e ((modname, m) # rest) base_path dependencies =
     (case has_local_file e modname m base_path of
        Inl err \<Rightarrow> Inl err
      | Inr True \<Rightarrow> get_dependencies_from_modules_loop e rest base_path dependencies
      | Inr False \<Rightarrow>
          (case PackageDependency_create m of
             Inl (AttributeError a) \<Rightarrow>
               get_dependencies_from_modules_loop e rest base_path dependencies
           | Inl err \<Rightarrow> Inl err
           | Inr pdep \<Rightarrow>
               if CHR ''.'' \<notin> set (name pdep) \<or> version pdep \<noteq> None
               then get_dependencies_from_modules_loop e rest base_path
                      (dependencies_add e pdep dependencies)
               else get_dependencies_from_modules_loop e rest base_path dependencies))"

definition get_dependencies_from_modules ::
    "env \<Rightarrow> (string \<times> pymodule) list \<Rightarrow> string \<Rightarrow> error + package_dependency list" where
  "get_dependencies_from_modules e module_iterator base_path =
     get_dependencies_from_modules_loop e module_iterator base_path []"

section \<open>Strategies and the orchestrator\<close>

text \<open>The strategy functions (lines 359-385).\<close>

definition get_sources_from_sys_modules ::
    "env \<Rightarrow> namespace \<Rightarrow> string \<Rightarrow> error + source option list" where
  "get_sources_from_sys_modules e globs base_path =
     get_sources_from_modules e (iterate_sys_modules e) base_path"

definition get_sources_from_imported_modules ::
    "env \<Rightarrow> namespace \<Rightarrow> string \<Rightarrow> error + source option list" where
  "get_sources_from_imported_modules e globs base_path =
     (case iterate_imported_modules e globs of
        Inl err \<Rightarrow> Inl err
      | Inr it \<Rightarrow> get_sources_from_modules e it base_path)"

fun get_sources_from_files :: "env \<Rightarrow> string list \<Rightarrow> source option list \<Rightarrow> error + source option list" where
  "get_sources_from_files e [] sources = Inr sources"
| "get_sources_from_files e (f # rest) sources =
     (case Source_create e (Some f) of
        Inl err \<Rightarrow> Inl err
      | Inr s \<Rightarrow> get_sources_from_files e rest (sources_add e (Some s) sources))"

definition get_sources_from_local_dir ::
    "env \<Rightarrow> namespace \<Rightarrow> string \<Rightarrow> error + source option list" where
  "get_sources_from_local_dir e globs base_path =
     get_sources_from_files e (iterate_all_python_files e base_path) []"

definition get_dependencies_from_sys_modules ::
    "env \<Rightarrow> namespace \<Rightarrow> string \<Rightarrow> error + package_dependency list" where
  "get_dependencies_from_sys_modules e globs base_path =
     get_dependencies_from_modules e (iterate_sys_modules e) base_path"

definition get_dependencies_from_imported_modules ::
    "env \<Rightarrow> namespace \<Rightarrow> string \<Rightarrow> error + package_dependency list" where
  "get_dependencies_from_imported_modules e globs base_path =
     (case iterate_imported_modules e globs of
        Inl err \<Rightarrow> Inl err
      | Inr it \<Rightarrow> get_dependencies_from_modules e it base_path)"

definition get_dependencies_from_pkg ::
    "env \<Rightarrow> namespace \<Rightarrow> string \<Rightarrow> error + package_dependency list" where
  "get_dependencies_from_pkg e globs base_path =
     Inr (foldl (\<lambda>dependencies (key, ver).
                   dependencies_add e \<lparr>name = key, version = Some ver\<rparr> dependencies)
                [] (working_set e))"

text \<open>
  The two strategy tables (lines 388-400); a name that is not a key raises
  \<^verbatim>\<open>KeyError\<close> at the lookup.
\<close>

definition source_discovery_strategies ::
    "string \<Rightarrow> (env \<Rightarrow> namespace \<Rightarrow> string \<Rightarrow> error + source option list) option" where
  "source_discovery_strategies key =
     (if key = ''none'' then Some (\<lambda>e globs path. Inr [])
      else if key = ''imported'' then Some get_sources_from_imported_modules
      else if key = ''sys'' then Some get_sources_from_sys_modules
      else if key = ''dir'' then Some get_sources_from_local_dir
      else None)"

definition dependency_discovery_strategies ::
    "string \<Rightarrow> (env \<Rightarrow> namespace \<Rightarrow> string \<Rightarrow> error + package_dependency list) option" where
  "dependency_discovery_strategies key =
     (if key = ''none'' then Some (\<lambda>e globs path. Inr [])
      else if key = ''imported'' then Some get_dependencies_from_imported_modules
      else if key = ''sys'' then Some get_dependencies_from_sys_modules
      else if key = ''pkg'' then Some get_dependencies_from_pkg
      else None)"

text \<open>
  \<^verbatim>\<open>gather_sources_and_dependencies\<close> (lines 403-420). \<open>numpy e\<close> is \<^verbatim>\<open>opt.np\<close> when
  \<^verbatim>\<open>opt.has_numpy\<close> holds.
\<close>

definition gather_sources_and_dependencies ::
    "env \<Rightarrow> namespace
       \<Rightarrow> error + source option \<times> source option list \<times> package_dependency list" where
  "gather_sources_and_dependencies e globs =
     (case get_main_file e globs of
        Inl err \<Rightarrow> Inl err
      | Inr (experiment_path, main) \<Rightarrow>
          (case source_discovery_strategies (DISCOVER_SOURCES e) of
             None \<Rightarrow> Inl (KeyError (DISCOVER_SOURCES e))
           | Some gather_sources \<Rightarrow>
               (case gather_sources e globs experiment_path of
                  Inl err \<Rightarrow> Inl err
                | Inr sources \<Rightarrow>
                    let sources' = sources_add e main sources
                    in (case dependency_discovery_strategies (DISCOVER_DEPENDENCIES e) of
                          None \<Rightarrow> Inl (KeyError (DISCOVER_DEPENDENCIES e))
                        | Some gather_dependencies \<Rightarrow>
                            (case gather_dependencies e globs experiment_path of
                               Inl err \<Rightarrow> Inl err
                             | Inr dependencies \<Rightarrow>
                                 (case numpy e of
                                    None \<Rightarrow> Inr (main, sources', dependencies)
                                  | Some np \<Rightarrow>
                                      (case PackageDependency_create np of
                                         Inl err \<Rightarrow> Inl err
                                       | Inr pdep \<Rightarrow>
                                           Inr (main, sources',
                                                dependencies_add e pdep dependencies))))))))"

section \<open>The version grammar in the specification's words\<close>







section \<open>Example environments\<close>

text \<open>
  A stand-in for MD5 in the examples (the digest function is a parameter of the
  model): the sum of the bytes, in decimal.
\<close>

definition sum_digest :: "bytes \<Rightarrow> string" where
  "sum_digest bs = str_nat (sum_list (map unat bs))"

text \<open>
  The experiment of the specification's end-to-end example: \<^verbatim>\<open>/exp/run.py\<close> is the
  main file, and the package \<^verbatim>\<open>widgets\<close> with \<^verbatim>\<open>__version__ = "2.0"\<close> is installed
  elsewhere.
\<close>

definition widgets_module :: pymodule where
  "widgets_module =
     \<lparr>mod_file = Some ''/usr/lib/python/widgets/__init__.py'',
      mod_name = Some ''widgets'',
      mod_attrs = [(''__version__'', VStr ''2.0'')]\<rparr>"

definition run_module :: pymodule where
  "run_module = \<lparr>mod_file = Some ''/exp/run.py'', mod_name = Some ''run'', mod_attrs = []\<rparr>"

text \<open>
  A submodule of an installed package that carries no version attribute, and the
  three modules of the example in the order \<^verbatim>\<open>sys.modules\<close> yields them.
\<close>

definition submodule_module :: pymodule where
  "submodule_module =
     \<lparr>mod_file = Some ''/usr/lib/python/pkg/sub.py'', mod_name = Some ''pkg.sub'',
      mod_attrs = []\<rparr>"

definition example_modules :: "(string \<times> pymodule) list" where
  "example_modules =
     [(''run'', run_module), (''widgets'', widgets_module), (''pkg.sub'', submodule_module)]"

definition example_env :: env where
  "example_env =
     \<lparr>getcwd = ''/exp'',
      path_exists = (\<lambda>p. p \<in> set [''/exp'', ''/exp/run.py'',
                                      ''/usr/lib/python/widgets/__init__.py'']),
      fd_exists = (\<lambda>i. i \<in> set [0, 1, 2]),
      file_content = map_of [(''/exp/run.py'', [120, 32, 61, 32, 53, 10]),
                             (''/usr/lib/python/widgets/__init__.py'', [])],
      md5_hexdigest = sum_digest,
      str_hash = (\<lambda>s. int (length s)),
      none_hash = 0,
      has_gitpython = False,
      git_Repo = (\<lambda>d. None),
      sys_modules = map (\<lambda>(modname, m). (modname, Some m)) example_modules,
      builtin_module_names = [''sys''],
      os_walk = (\<lambda>b. []),
      working_set = [(''widgets'', ''2.0'')],
      DISCOVER_SOURCES = ''sys'',
      DISCOVER_DEPENDENCIES = ''sys'',
      numpy = None\<rparr>"

section \<open>Properties of the path functions\<close>

lemma splitall_loop_nonempty: "splitall_loop path allparts \<noteq> []"
proof (induction path allparts rule: splitall_loop.induct)
  case (1 path allparts)
  show ?case
  proof (cases "fst (path_split path) = path \<or> snd (path_split path) = path")
    case True
    then show ?thesis
      by (subst splitall_loop.simps) (auto simp: Let_def)
  next
    case False
    then have "splitall_loop path allparts =
        splitall_loop (fst (path_split path)) (snd (path_split path) # allparts)"
      by (subst splitall_loop.simps) (simp add: Let_def)
    with "1" False show ?thesis
      by simp
  qed
qed

lemma splitall_nonempty: "splitall path \<noteq> []"
  by (simp add: splitall_def splitall_loop_nonempty)

lemma length_takeWhile_less_length:
  "\<exists>x \<in> set xs. \<not> P x \<Longrightarrow> length (takeWhile P xs) < length xs"
  by (induct xs) auto

lemma rfind_nth:
  assumes "c \<in> set s"
  shows "0 \<le> rfind c s \<and> nat (rfind c s) < length s \<and> s ! nat (rfind c s) = c"
proof -
  define k where "k = length (takeWhile (\<lambda>x. x \<noteq> c) (rev s))"
  define n where "n = length s - Suc k"
  from assms have k: "k < length (rev s)"
    unfolding k_def by (intro length_takeWhile_less_length) auto
  then have "\<not> (rev s ! k \<noteq> c)"
    unfolding k_def by (rule nth_length_takeWhile)
  moreover from k have "rev s ! k = s ! n"
    by (simp add: rev_nth n_def)
  ultimately have c: "s ! n = c"
    by simp
  from k have n: "n < length s"
    by (simp add: n_def)
  from k assms have "rfind c s = int n"
    by (simp add: rfind_def n_def k_def)
  with c n show ?thesis
    by simp
qed

lemma rfind_lower: "- 1 \<le> rfind c s"
proof (cases "c \<in> set s")
  case True
  from rfind_nth [OF this] show ?thesis
    by simp
next
  case False
  then show ?thesis
    by (simp add: rfind_def)
qed

lemma splitext_extension:
  "fst (splitext p) @ snd (splitext p) = p
   \<and> (snd (splitext p) = [] \<or> hd (snd (splitext p)) = CHR ''.'')"
proof (cases "snd (splitext p) = []")
  case True
  have "fst (splitext p) @ snd (splitext p) = p"
    by (simp add: splitext_def Let_def)
  with True show ?thesis
    by blast
next
  case False
  then have cond: "rfind sep p < rfind (CHR ''.'') p"
    and snd: "snd (splitext p) = drop (nat (rfind (CHR ''.'') p)) p"
    by (auto simp: splitext_def Let_def split: if_splits)
  from cond rfind_lower [of sep p] have "0 \<le> rfind (CHR ''.'') p"
    by simp
  then have "CHR ''.'' \<in> set p"
    by (auto simp: rfind_def split: if_splits)
  from rfind_nth [OF this] have "drop (nat (rfind (CHR ''.'') p)) p
      = CHR ''.'' # drop (Suc (nat (rfind (CHR ''.'') p))) p"
    by (metis Cons_nth_drop_Suc)
  with snd have "hd (snd (splitext p)) = CHR ''.''"
    by simp
  moreover have "fst (splitext p) @ snd (splitext p) = p"
    by (simp add: splitext_def Let_def)
  ultimately show ?thesis
    by simp
qed

text \<open>
  C7. \<^verbatim>\<open>convert_path_to_module_parts\<close> indexes the last component of the split, which
  always exists. When that component is \<^verbatim>\<open>__init__.py\<close> or \<^verbatim>\<open>__init__.pyc\<close>, the result
  is the split without it: exactly one segment shorter. For every other path the result
  is the split with its last component replaced by the root \<^verbatim>\<open>splitext\<close> gives for it,
  that is, the component without its extension: what is cut off is empty or starts with
  a dot. For \<^verbatim>\<open>pkg/sub/__init__.py\<close> the result
  is \<^verbatim>\<open>['pkg', 'sub']\<close>.
\<close>

theorem convert_path_to_module_parts_initializer:
  "splitall path \<noteq> []
   \<and> (last (splitall path) \<in> {''__init__.py'', ''__init__.pyc''} \<longrightarrow>
        convert_path_to_module_parts path = butlast (splitall path)
        \<and> Suc (length (convert_path_to_module_parts path)) = length (splitall path))
   \<and> (last (splitall path) \<notin> {''__init__.py'', ''__init__.pyc''} \<longrightarrow>
        convert_path_to_module_parts path
          = butlast (splitall path) @ [fst (splitext (last (splitall path)))]
        \<and> fst (splitext (last (splitall path))) @ snd (splitext (last (splitall path)))
            = last (splitall path)
        \<and> (snd (splitext (last (splitall path))) = []
             \<or> hd (snd (splitext (last (splitall path)))) = CHR ''.''))
   \<and> convert_path_to_module_parts ''pkg/sub/__init__.py'' = [''pkg'', ''sub'']"
proof -
  have ne: "splitall path \<noteq> []"
    by (rule splitall_nonempty)
  have ext: "fst (splitext c) @ snd (splitext c) = c" for c
    using splitext_extension [of c] by (rule conjunct1)
  have dot: "snd (splitext (last (splitall path))) = []
      \<or> hd (snd (splitext (last (splitall path)))) = CHR ''.''"
    using splitext_extension [of "last (splitall path)"] by (rule conjunct2)
  have ex: "convert_path_to_module_parts ''pkg/sub/__init__.py'' = [''pkg'', ''sub'']"
    by code_simp
  from ne have len: "Suc (length (butlast (splitall path))) = length (splitall path)"
    by simp
  show ?thesis
    using ne ext ex len dot by (simp add: convert_path_to_module_parts_def Let_def)
qed

theorem convert_path_to_module_parts_initializer_witness:
  "last (splitall ''pkg/sub/__init__.pyc'') \<in> {''__init__.py'', ''__init__.pyc''}
   \<and> convert_path_to_module_parts ''pkg/sub/__init__.pyc'' = [''pkg'', ''sub'']
   \<and> last (splitall ''/exp/foo/bar.tar.py'') \<notin> {''__init__.py'', ''__init__.pyc''}
   \<and> convert_path_to_module_parts ''/exp/foo/bar.tar.py'' = [''/'', ''exp'', ''foo'', ''bar.tar'']"
proof -
  have s1: "splitall ''pkg/sub/__init__.pyc'' = [''pkg'', ''sub'', ''__init__.pyc'']"
    by code_simp
  have s2: "splitall ''/exp/foo/bar.tar.py'' = [''/'', ''exp'', ''foo'', ''bar.tar.py'']"
    by code_simp
  have x2: "splitext ''bar.tar.py'' = (''bar.tar'', ''.py'')"
    by code_simp
  show ?thesis
    using convert_path_to_module_parts_initializer [of "''pkg/sub/__init__.pyc''"]
      convert_path_to_module_parts_initializer [of "''/exp/foo/bar.tar.py''"]
    by (simp add: s1 s2 x2)
qed









section \<open>Properties of the digest and of Source\<close>

lemma get_digest_loop_chunks:
  assumes "0 < n"
  shows "get_digest_loop n h (take n f) (drop n f) = h @ f"
proof (induction "length f" arbitrary: f h rule: less_induct)
  case less
  show ?case
  proof (cases "f = []")
    case True
    then show ?thesis
      by (subst get_digest_loop.simps) simp
  next
    case False
    with assms have data: "take n f \<noteq> []"
      by simp
    from False assms have "length (drop n f) < length f"
      by simp
    then have "get_digest_loop n (h @ take n f) (take n (drop n f)) (drop n (drop n f))
        = (h @ take n f) @ drop n f"
      by (rule less.hyps)
    with data show ?thesis
      by (subst get_digest_loop.simps) (simp add: md5_update_def)
  qed
qed

text \<open>
  C8. For every readable file, \<^verbatim>\<open>get_digest\<close>, which reads the file in chunks of
  1 MiB and feeds each chunk to the running MD5 state, returns the hex digest of the whole
  content fed in one call. The loop does so for every positive chunk size. Hence two
  runs on the same content with the same digest function return the same digest.
\<close>

theorem get_digest_whole_file:
  "(file_content e fname = Some content \<longrightarrow>
      get_digest e fname = Inr (md5_hexdigest e (md5_update [] content)))
   \<and> (0 < n \<longrightarrow> get_digest_loop n h (take n f) (drop n f) = md5_update h f)
   \<and> (file_content e fname = Some content \<and> file_content e' fname = Some content
        \<and> md5_hexdigest e' = md5_hexdigest e \<longrightarrow>
      get_digest e' fname = get_digest e fname)"
proof -
  have mb: "0 < 1 * MB"
    by (simp add: MB_def)
  have whole: "get_digest x fname = Inr (md5_hexdigest x (md5_update [] content))"
    if "file_content x fname = Some content" for x
    using that get_digest_loop_chunks [OF mb, of "[]" content]
    by (simp add: get_digest_def md5_update_def)
  have chunks: "0 < n \<longrightarrow> get_digest_loop n h (take n f) (drop n f) = md5_update h f"
    by (simp add: get_digest_loop_chunks md5_update_def)
  from whole chunks show ?thesis
    by simp
qed

theorem get_digest_whole_file_witness:
  "file_content example_env ''/exp/run.py'' = Some [120, 32, 61, 32, 53, 10]
   \<and> get_digest example_env ''/exp/run.py'' = Inr ''308''
   \<and> (0::nat) < 4
   \<and> get_digest_loop 4 [] (take 4 [120, 32, 61, 32, 53, 10]) (drop 4 [120, 32, 61, 32, 53, 10])
        = [120, 32, 61, 32, 53, 10]"
proof -
  have c: "file_content example_env ''/exp/run.py'' = Some [120, 32, 61, 32, 53, 10]"
    by (simp add: example_env_def)
  have d: "md5_hexdigest example_env [120, 32, 61, 32, 53, 10] = ''308''"
    unfolding example_env_def by code_simp
  show ?thesis
    using get_digest_whole_file
      [of example_env "''/exp/run.py''" "[120, 32, 61, 32, 53, 10]" 4 "[]"
          "[120, 32, 61, 32, 53, 10]" example_env]
    by (simp add: c d md5_update_def)
qed

lemma Source_create_raises:
  assumes "arg = None \<or> arg = Some [] \<or> (\<exists>f. arg = Some f \<and> \<not> path_exists e f)"
  shows "Source_create e arg
      = Inl (ValueError (invalid_filename_message (case arg of None \<Rightarrow> ''None'' | Some f \<Rightarrow> f)))"
  using assms by (auto simp: Source_create_def)

lemma get_main_file_raises:
  assumes "Source_create e (Some f) = Inl err" and "map_of globs ''__file__'' = Some (OStr f)"
  shows "get_main_file e globs = Inl err"
  using assms by (simp add: get_main_file_def)

lemma gather_raises:
  assumes "get_main_file e globs = Inl err"
  shows "gather_sources_and_dependencies e globs = Inl err"
  using assms by (simp add: gather_sources_and_dependencies_def)

lemma get_sources_from_files_raises:
  assumes "Source_create e (Some f) = Inl err"
  shows "get_sources_from_files e (f # rest) sources = Inl err"
  using assms by simp

lemma get_sources_from_modules_loop_raises:
  assumes "Source_create e (Some (abspath (getcwd e) f)) = Inl err"
    and "mod_file m = Some f"
    and "\<not> str_in_sources e (abspath (getcwd e) f) sources"
    and "is_local_source (getcwd e) (abspath (getcwd e) f) modname base_path = Inr True"
  shows "get_sources_from_modules_loop e ((modname, m) # rest) base_path sources = Inl err"
  using assms by (simp add: Let_def)

text \<open>
  C9. When the argument of \<^verbatim>\<open>Source.create\<close> is \<^verbatim>\<open>None\<close>, the empty string or a path
  at which no file exists, the call raises \<^verbatim>\<open>ValueError\<close> with a message that quotes
  the argument, and so returns no \<^verbatim>\<open>Source\<close>. No caller catches the error:
  \<^verbatim>\<open>get_main_file\<close> and \<^verbatim>\<open>gather_sources_and_dependencies\<close> raise it for such a
  \<^verbatim>\<open>__file__\<close>, the directory strategy raises it for such a file, and
  \<^verbatim>\<open>get_sources_from_modules\<close> raises it for a local module whose file is missing.
\<close>

theorem Source_create_invalid:
  assumes "arg = None \<or> arg = Some [] \<or> (\<exists>f. arg = Some f \<and> \<not> path_exists e f)"
  shows "Source_create e arg
           = Inl (ValueError (''invalid filename or file not found '' @ [CHR 0x22]
                    @ (case arg of None \<Rightarrow> ''None'' | Some f \<Rightarrow> f) @ [CHR 0x22]))
         \<and> (\<forall>s. Source_create e arg \<noteq> Inr s)
         \<and> (\<forall>f globs. arg = Some f \<and> map_of globs ''__file__'' = Some (OStr f) \<longrightarrow>
               get_main_file e globs = Inl (ValueError (invalid_filename_message f))
               \<and> gather_sources_and_dependencies e globs
                   = Inl (ValueError (invalid_filename_message f)))
         \<and> (\<forall>f rest sources. arg = Some f \<longrightarrow>
               get_sources_from_files e (f # rest) sources
                 = Inl (ValueError (invalid_filename_message f)))
         \<and> (\<forall>f modname m rest base_path sources.
               arg = Some (abspath (getcwd e) f) \<and> mod_file m = Some f
               \<and> \<not> str_in_sources e (abspath (getcwd e) f) sources
               \<and> is_local_source (getcwd e) (abspath (getcwd e) f) modname base_path = Inr True \<longrightarrow>
               get_sources_from_modules_loop e ((modname, m) # rest) base_path sources
                 = Inl (ValueError (invalid_filename_message (abspath (getcwd e) f))))"
proof (intro conjI allI impI)
  note create = Source_create_raises [OF assms]
  have some: "Source_create e (Some f) = Inl (ValueError (invalid_filename_message f))"
    if "arg = Some f" for f
    using create that by simp
  show "Source_create e arg
      = Inl (ValueError (''invalid filename or file not found '' @ [CHR 0x22]
               @ (case arg of None \<Rightarrow> ''None'' | Some f \<Rightarrow> f) @ [CHR 0x22]))"
    using create by (simp only: invalid_filename_message_def)
  show "Source_create e arg \<noteq> Inr s" for s
    using create by simp
  show "get_main_file e globs = Inl (ValueError (invalid_filename_message f))"
    if "arg = Some f \<and> map_of globs ''__file__'' = Some (OStr f)" for f globs
    using that some [of f] get_main_file_raises by blast
  show "gather_sources_and_dependencies e globs = Inl (ValueError (invalid_filename_message f))"
    if "arg = Some f \<and> map_of globs ''__file__'' = Some (OStr f)" for f globs
    using that some [of f] get_main_file_raises gather_raises by blast
  show "get_sources_from_files e (f # rest) sources
      = Inl (ValueError (invalid_filename_message f))"
    if "arg = Some f" for f rest sources
    using some [OF that] by (rule get_sources_from_files_raises)
  show "get_sources_from_modules_loop e ((modname, m) # rest) base_path sources
      = Inl (ValueError (invalid_filename_message (abspath (getcwd e) f)))"
    if "arg = Some (abspath (getcwd e) f) \<and> mod_file m = Some f
        \<and> \<not> str_in_sources e (abspath (getcwd e) f) sources
        \<and> is_local_source (getcwd e) (abspath (getcwd e) f) modname base_path = Inr True"
    for f modname m rest base_path sources
  proof -
    from that have "Source_create e (Some (abspath (getcwd e) f))
        = Inl (ValueError (invalid_filename_message (abspath (getcwd e) f)))"
      using some by blast
    with that show ?thesis
      by (intro get_sources_from_modules_loop_raises) blast+
  qed
qed

theorem Source_create_invalid_witness:
  "\<not> path_exists example_env ''/exp/missing.py''
   \<and> Source_create example_env (Some ''/exp/missing.py'')
       = Inl (ValueError (''invalid filename or file not found '' @ [CHR 0x22]
                @ ''/exp/missing.py'' @ [CHR 0x22]))
   \<and> gather_sources_and_dependencies example_env [(''__file__'', OStr ''/exp/missing.py'')]
       = Inl (ValueError (invalid_filename_message ''/exp/missing.py''))
   \<and> Source_create example_env None
       = Inl (ValueError (''invalid filename or file not found '' @ [CHR 0x22]
                @ ''None'' @ [CHR 0x22]))"
proof -
  have h: "\<not> path_exists example_env ''/exp/missing.py''"
    by (simp add: example_env_def)
  then have a: "Some ''/exp/missing.py'' = None \<or> Some ''/exp/missing.py'' = Some []
      \<or> (\<exists>f. Some ''/exp/missing.py'' = Some f \<and> \<not> path_exists example_env f)"
    by blast
  have b: "(None :: string option) = None \<or> None = Some []
      \<or> (\<exists>f. None = Some f \<and> \<not> path_exists example_env f)"
    by blast
  have m: "map_of [(''__file__'', OStr ''/exp/missing.py'')] ''__file__''
      = Some (OStr ''/exp/missing.py'')"
    by simp
  note t1 = Source_create_invalid [OF a]
  note t2 = Source_create_invalid [OF b]
  from t1 have c1: "Source_create example_env (Some ''/exp/missing.py'')
       = Inl (ValueError (''invalid filename or file not found '' @ [CHR 0x22]
                @ ''/exp/missing.py'' @ [CHR 0x22]))"
    by simp
  note g = t1 [THEN conjunct2, THEN conjunct2, THEN conjunct1, rule_format,
      of "''/exp/missing.py''" "[(''__file__'', OStr ''/exp/missing.py'')]"]
  have c2: "gather_sources_and_dependencies example_env
        [(''__file__'', OStr ''/exp/missing.py'')]
       = Inl (ValueError (invalid_filename_message ''/exp/missing.py''))"
    by (rule g [OF conjI [OF refl m], THEN conjunct2])
  from t2 have c3: "Source_create example_env None
       = Inl (ValueError (''invalid filename or file not found '' @ [CHR 0x22]
                @ ''None'' @ [CHR 0x22]))"
    by simp
  from h c1 c2 c3 show ?thesis
    by (intro conjI)
qed

text \<open>
  C5. Two \<^verbatim>\<open>Source\<close> values are equal iff their file names are equal, and the hash of a
  \<^verbatim>\<open>Source\<close> is the hash of its file name. Hence two sources with the same file name
  have the same hash and are equal, whatever their digest, repository, commit and dirty
  flag, and adding both to a set leaves one element. The order is the order of the file
  names: \<^verbatim>\<open>__le__\<close> compares them, and the comparisons \<^verbatim>\<open>total_ordering\<close> derives are
  those of the file names too.
\<close>

theorem Source_identity_by_filename:
  "(Source_eq s1 (OpSource s2) \<longleftrightarrow> filename s1 = filename s2)
   \<and> Source_hash e s1 = str_hash e (filename s1)
   \<and> (filename s1 = filename s2 \<longrightarrow>
        Source_hash e s1 = Source_hash e s2
        \<and> element_eq (Some s1) (Some s2)
        \<and> sources_add e (Some s2) (sources_add e (Some s1) []) = [Some s1])
   \<and> (filename s1 \<noteq> filename s2 \<longrightarrow>
        sources_add e (Some s2) (sources_add e (Some s1) []) = [Some s1, Some s2])
   \<and> (Source_le s1 s2 \<longleftrightarrow> filename s1 \<le> filename s2)
   \<and> (Source_lt s1 s2 \<longleftrightarrow> filename s1 < filename s2)
   \<and> (Source_gt s1 s2 \<longleftrightarrow> filename s1 > filename s2)
   \<and> (Source_ge s1 s2 \<longleftrightarrow> filename s1 \<ge> filename s2)"
proof -
  have eq: "Source_eq s1 (OpSource s2) \<longleftrightarrow> filename s1 = filename s2"
    by (simp add: Source_eq_def)
  have hash: "Source_hash e s1 = str_hash e (filename s1)"
    by (simp add: Source_hash_def)
  have same: "Source_hash e s1 = Source_hash e s2 \<and> element_eq (Some s1) (Some s2)
      \<and> sources_add e (Some s2) (sources_add e (Some s1) []) = [Some s1]"
    if "filename s1 = filename s2"
    using that
    by (simp add: Source_hash_def element_eq_def Source_eq_def sources_add_def pyset_add_def
        element_hash_def)
  have other: "sources_add e (Some s2) (sources_add e (Some s1) []) = [Some s1, Some s2]"
    if "filename s1 \<noteq> filename s2"
    using that
    by (simp add: element_eq_def Source_eq_def sources_add_def pyset_add_def)
  have le: "Source_le s1 s2 \<longleftrightarrow> filename s1 \<le> filename s2"
    by (simp add: Source_le_def)
  have lt: "Source_lt s1 s2 \<longleftrightarrow> filename s1 < filename s2"
    by (auto simp: Source_lt_def Source_le_def Source_eq_def)
  have gt: "Source_gt s1 s2 \<longleftrightarrow> filename s1 > filename s2"
    by (auto simp: Source_gt_def Source_le_def)
  have ge: "Source_ge s1 s2 \<longleftrightarrow> filename s1 \<ge> filename s2"
    by (auto simp: Source_ge_def Source_le_def Source_eq_def)
  from eq hash same other le lt gt ge show ?thesis
    by blast
qed

theorem Source_identity_by_filename_witness:
  "filename \<lparr>filename = ''/exp/run.py'', digest = ''308'', repo = None, commit = None,
              is_dirty = None\<rparr>
     = filename \<lparr>filename = ''/exp/run.py'', digest = ''411'', repo = Some ''git:/exp'',
                 commit = Some ''0a1b'', is_dirty = Some True\<rparr>
   \<and> sources_add example_env
        (Some \<lparr>filename = ''/exp/run.py'', digest = ''411'', repo = Some ''git:/exp'',
               commit = Some ''0a1b'', is_dirty = Some True\<rparr>)
        (sources_add example_env
           (Some \<lparr>filename = ''/exp/run.py'', digest = ''308'', repo = None, commit = None,
                  is_dirty = None\<rparr>) [])
       = [Some \<lparr>filename = ''/exp/run.py'', digest = ''308'', repo = None, commit = None,
                 is_dirty = None\<rparr>]
   \<and> filename \<lparr>filename = ''/exp/run.py'', digest = ''308'', repo = None, commit = None,
                is_dirty = None\<rparr>
     \<noteq> filename \<lparr>filename = ''/exp/lib.py'', digest = ''308'', repo = None, commit = None,
                 is_dirty = None\<rparr>
   \<and> sources_add example_env
        (Some \<lparr>filename = ''/exp/lib.py'', digest = ''308'', repo = None, commit = None,
               is_dirty = None\<rparr>)
        (sources_add example_env
           (Some \<lparr>filename = ''/exp/run.py'', digest = ''308'', repo = None, commit = None,
                  is_dirty = None\<rparr>) [])
       = [Some \<lparr>filename = ''/exp/run.py'', digest = ''308'', repo = None, commit = None,
                 is_dirty = None\<rparr>,
          Some \<lparr>filename = ''/exp/lib.py'', digest = ''308'', repo = None, commit = None,
                 is_dirty = None\<rparr>]"
  using Source_identity_by_filename
      [of "\<lparr>filename = ''/exp/run.py'', digest = ''308'', repo = None, commit = None,
              is_dirty = None\<rparr>"
          "\<lparr>filename = ''/exp/run.py'', digest = ''411'', repo = Some ''git:/exp'',
              commit = Some ''0a1b'', is_dirty = Some True\<rparr>" example_env]
    Source_identity_by_filename
      [of "\<lparr>filename = ''/exp/run.py'', digest = ''308'', repo = None, commit = None,
              is_dirty = None\<rparr>"
          "\<lparr>filename = ''/exp/lib.py'', digest = ''308'', repo = None, commit = None,
              is_dirty = None\<rparr>" example_env]
  by simp

section \<open>Properties of the version heuristic\<close>






















section \<open>Properties of the classifier\<close>

lemma normpath_nonempty: "normpath p \<noteq> []"
  by (simp add: normpath_def Let_def)

lemma abspath_nonempty: "abspath cwd p \<noteq> []"
  by (simp add: abspath_def normpath_nonempty)

lemma relpath_total: "fname \<noteq> [] \<Longrightarrow> \<exists>r. relpath cwd fname base_path = Inr r"
  by (simp add: relpath_def Let_def)

lemma is_local_source_total:
  assumes "fname \<noteq> []"
  shows "\<exists>b. is_local_source cwd fname modname base_path = Inr b"
proof -
  from relpath_total [OF assms] obtain r where "relpath cwd fname base_path = Inr r"
    by blast
  then show ?thesis
    by (auto simp: is_local_source_def Let_def)
qed

lemma has_local_file_total: "\<exists>b. has_local_file e modname m base_path = Inr b"
  by (cases "mod_file m") (auto simp: has_local_file_def is_local_source_total abspath_nonempty)

lemma dependencies_add_names:
  "name ` set (dependencies_add e pdep ds) = insert (name pdep) (name ` set ds)"
  by (auto simp: dependencies_add_def pyset_add_def PackageDependency_eq_def intro: rev_image_eqI)

lemma dependencies_step_local:
  assumes "has_local_file e modname m base_path = Inr True"
  shows "get_dependencies_from_modules_loop e ((modname, m) # rest) base_path ds
           = get_dependencies_from_modules_loop e rest base_path ds"
  using assms by simp

lemma dependencies_step_nameless:
  assumes "has_local_file e modname m base_path = Inr False" and "mod_name m = None"
  shows "get_dependencies_from_modules_loop e ((modname, m) # rest) base_path ds
           = get_dependencies_from_modules_loop e rest base_path ds"
  using assms by (simp add: PackageDependency_create_def)

lemma dependencies_step_named:
  assumes "has_local_file e modname m base_path = Inr False" and "mod_name m = Some n"
  shows "get_dependencies_from_modules_loop e ((modname, m) # rest) base_path ds
           = get_dependencies_from_modules_loop e rest base_path
               (if get_version_heuristic m \<noteq> None \<or> CHR ''.'' \<notin> set n
                then dependencies_add e \<lparr>name = n, version = get_version_heuristic m\<rparr> ds
                else ds)"
  using assms by (auto simp: PackageDependency_create_def)

text \<open>A pair of the iterator whose module is kept as a dependency, under its own name.\<close>

lemma dependencies_loop_names:
  "\<exists>res. get_dependencies_from_modules_loop e it base_path ds = Inr res
     \<and> name ` set res = name ` set ds
         \<union> {n. \<exists>modname m. (modname, m) \<in> set it
                 \<and> has_local_file e modname m base_path = Inr False
                 \<and> mod_name m = Some n
                 \<and> (get_version_heuristic m \<noteq> None \<or> CHR ''.'' \<notin> set n)}"
proof (induction it arbitrary: ds)
  case Nil
  show ?case by simp
next
  case (Cons p it)
  obtain modname m where p: "p = (modname, m)"
    by (cases p)
  from has_local_file_total obtain b where b: "has_local_file e modname m base_path = Inr b"
    by blast
  show ?case
  proof (cases b)
    case True
    with b have step: "get_dependencies_from_modules_loop e (p # it) base_path ds
        = get_dependencies_from_modules_loop e it base_path ds"
      unfolding p by (intro dependencies_step_local) simp
    from Cons.IH [of ds] obtain res where res: "get_dependencies_from_modules_loop e it base_path ds = Inr res"
      and names: "name ` set res = name ` set ds
         \<union> {n. \<exists>modname m. (modname, m) \<in> set it
                 \<and> has_local_file e modname m base_path = Inr False
                 \<and> mod_name m = Some n
                 \<and> (get_version_heuristic m \<noteq> None \<or> CHR ''.'' \<notin> set n)}"
      by blast
    from True b have "{n. \<exists>modname' m'. (modname', m') \<in> set (p # it)
                 \<and> has_local_file e modname' m' base_path = Inr False
                 \<and> mod_name m' = Some n
                 \<and> (get_version_heuristic m' \<noteq> None \<or> CHR ''.'' \<notin> set n)}
       = {n. \<exists>modname m. (modname, m) \<in> set it
                 \<and> has_local_file e modname m base_path = Inr False
                 \<and> mod_name m = Some n
                 \<and> (get_version_heuristic m \<noteq> None \<or> CHR ''.'' \<notin> set n)}"
      unfolding p by auto
    with step res names show ?thesis
      by simp
  next
    case False
    from b False have nonlocal: "has_local_file e modname m base_path = Inr False"
      by simp
    show ?thesis
    proof (cases "mod_name m")
      case None
      with nonlocal have step: "get_dependencies_from_modules_loop e (p # it) base_path ds
          = get_dependencies_from_modules_loop e it base_path ds"
        unfolding p by (intro dependencies_step_nameless)
      from Cons.IH [of ds] obtain res where res: "get_dependencies_from_modules_loop e it base_path ds = Inr res"
        and names: "name ` set res = name ` set ds
           \<union> {n. \<exists>modname m. (modname, m) \<in> set it
                   \<and> has_local_file e modname m base_path = Inr False
                   \<and> mod_name m = Some n
                   \<and> (get_version_heuristic m \<noteq> None \<or> CHR ''.'' \<notin> set n)}"
        by blast
      from None have "{n. \<exists>modname' m'. (modname', m') \<in> set (p # it)
                   \<and> has_local_file e modname' m' base_path = Inr False
                   \<and> mod_name m' = Some n
                   \<and> (get_version_heuristic m' \<noteq> None \<or> CHR ''.'' \<notin> set n)}
         = {n. \<exists>modname m. (modname, m) \<in> set it
                   \<and> has_local_file e modname m base_path = Inr False
                   \<and> mod_name m = Some n
                   \<and> (get_version_heuristic m \<noteq> None \<or> CHR ''.'' \<notin> set n)}"
        unfolding p by auto
      with step res names show ?thesis
        by simp
    next
      case (Some n)
      let ?ds = "if get_version_heuristic m \<noteq> None \<or> CHR ''.'' \<notin> set n
                then dependencies_add e \<lparr>name = n, version = get_version_heuristic m\<rparr> ds
                else ds"
      from nonlocal Some have step: "get_dependencies_from_modules_loop e (p # it) base_path ds
          = get_dependencies_from_modules_loop e it base_path ?ds"
        unfolding p by (rule dependencies_step_named)
      from Cons.IH [of ?ds] obtain res where res: "get_dependencies_from_modules_loop e it base_path ?ds = Inr res"
        and names: "name ` set res = name ` set ?ds
           \<union> {n. \<exists>modname m. (modname, m) \<in> set it
                   \<and> has_local_file e modname m base_path = Inr False
                   \<and> mod_name m = Some n
                   \<and> (get_version_heuristic m \<noteq> None \<or> CHR ''.'' \<notin> set n)}"
        by blast
      have here: "name ` set ?ds = name ` set ds
          \<union> {n'. n' = n \<and> (get_version_heuristic m \<noteq> None \<or> CHR ''.'' \<notin> set n)}"
        by (auto simp: dependencies_add_names)
      from nonlocal Some have "{n'. \<exists>modname' m'. (modname', m') \<in> set (p # it)
                   \<and> has_local_file e modname' m' base_path = Inr False
                   \<and> mod_name m' = Some n'
                   \<and> (get_version_heuristic m' \<noteq> None \<or> CHR ''.'' \<notin> set n')}
         = {n'. n' = n \<and> (get_version_heuristic m \<noteq> None \<or> CHR ''.'' \<notin> set n)}
           \<union> {n. \<exists>modname m. (modname, m) \<in> set it
                   \<and> has_local_file e modname m base_path = Inr False
                   \<and> mod_name m = Some n
                   \<and> (get_version_heuristic m \<noteq> None \<or> CHR ''.'' \<notin> set n)}"
        unfolding p by auto
      with step res names here show ?thesis
        by (simp add: Un_assoc)
    qed
  qed
qed


lemma sources_step_nonlocal:
  assumes "has_local_file e modname m base_path = Inr False"
  shows "get_sources_from_modules_loop e ((modname, m) # rest) base_path srcs
           = get_sources_from_modules_loop e rest base_path srcs"
  using assms by (cases "mod_file m") (simp_all add: has_local_file_def Let_def)

lemma sources_step_local:
  assumes "mod_file m = Some f"
    and "is_local_source (getcwd e) (abspath (getcwd e) f) modname base_path = Inr True"
  shows "get_sources_from_modules_loop e ((modname, m) # rest) base_path srcs
           = (if str_in_sources e (abspath (getcwd e) f) srcs
              then get_sources_from_modules_loop e rest base_path srcs
              else (case Source_create e (Some (abspath (getcwd e) f)) of
                      Inl err \<Rightarrow> Inl err
                    | Inr s \<Rightarrow>
                        get_sources_from_modules_loop e rest base_path
                          (sources_add e (Some s) srcs)))"
  using assms by (simp add: Let_def)



lemma element_eq_refl: "element_eq x x"
  by (cases x) (simp_all add: element_eq_def Source_eq_def)

lemma sources_add_holds:
  "\<exists>y \<in> set (sources_add e x srcs). element_hash e y = element_hash e x \<and> element_eq y x"
  by (auto simp: sources_add_def pyset_add_def element_eq_refl)






text \<open>
  C6. For a module the iterator yields that is not local source and has a name, the
  loop of \<^verbatim>\<open>get_dependencies_from_modules\<close> adds the derived \<^verbatim>\<open>PackageDependency\<close> iff
  the version heuristic found a version or the name contains no dot; otherwise the set
  is left as it was. So the names in the result are exactly the names of the non-local
  modules with a version or a dot-free name: a dependency without a version whose name
  contains a dot is discarded.
\<close>

theorem dependency_kept_iff_version_or_top_level:
  assumes "has_local_file e modname m base_path = Inr False" and "mod_name m = Some n"
  shows "get_dependencies_from_modules_loop e ((modname, m) # rest) base_path ds
           = get_dependencies_from_modules_loop e rest base_path
               (if get_version_heuristic m \<noteq> None \<or> CHR ''.'' \<notin> set n
                then dependencies_add e \<lparr>name = n, version = get_version_heuristic m\<rparr> ds
                else ds)
         \<and> get_dependencies_from_modules e [(modname, m)] base_path
             = Inr (if get_version_heuristic m \<noteq> None \<or> CHR ''.'' \<notin> set n
                    then [\<lparr>name = n, version = get_version_heuristic m\<rparr>]
                    else [])
         \<and> (\<exists>res. get_dependencies_from_modules e it base_path = Inr res
               \<and> name ` set res
                   = {n'. \<exists>modname' m'. (modname', m') \<in> set it
                          \<and> has_local_file e modname' m' base_path = Inr False
                          \<and> mod_name m' = Some n'
                          \<and> (get_version_heuristic m' \<noteq> None \<or> CHR ''.'' \<notin> set n')})"
proof (intro conjI)
  show step: "get_dependencies_from_modules_loop e ((modname, m) # rest) base_path ds
           = get_dependencies_from_modules_loop e rest base_path
               (if get_version_heuristic m \<noteq> None \<or> CHR ''.'' \<notin> set n
                then dependencies_add e \<lparr>name = n, version = get_version_heuristic m\<rparr> ds
                else ds)" for rest ds
    using assms by (rule dependencies_step_named)
  show "get_dependencies_from_modules e [(modname, m)] base_path
             = Inr (if get_version_heuristic m \<noteq> None \<or> CHR ''.'' \<notin> set n
                    then [\<lparr>name = n, version = get_version_heuristic m\<rparr>]
                    else [])"
    unfolding get_dependencies_from_modules_def step
    by (simp add: dependencies_add_def pyset_add_def)
  from dependencies_loop_names [of e it base_path "[]"]
  show "\<exists>res. get_dependencies_from_modules e it base_path = Inr res
               \<and> name ` set res
                   = {n'. \<exists>modname' m'. (modname', m') \<in> set it
                          \<and> has_local_file e modname' m' base_path = Inr False
                          \<and> mod_name m' = Some n'
                          \<and> (get_version_heuristic m' \<noteq> None \<or> CHR ''.'' \<notin> set n')}"
    by (simp add: get_dependencies_from_modules_def)
qed

theorem dependency_kept_iff_version_or_top_level_witness:
  "has_local_file example_env ''widgets'' widgets_module ''/exp'' = Inr False
   \<and> mod_name widgets_module = Some ''widgets''
   \<and> get_dependencies_from_modules example_env [(''widgets'', widgets_module)] ''/exp''
       = Inr [\<lparr>name = ''widgets'', version = Some ''2.0''\<rparr>]
   \<and> has_local_file example_env ''pkg.sub'' submodule_module ''/exp'' = Inr False
   \<and> mod_name submodule_module = Some ''pkg.sub''
   \<and> get_dependencies_from_modules example_env [(''pkg.sub'', submodule_module)] ''/exp''
       = Inr []"
proof -
  have l1: "has_local_file example_env ''widgets'' widgets_module ''/exp'' = Inr False"
    by code_simp
  have n1: "mod_name widgets_module = Some ''widgets''"
    by (simp add: widgets_module_def)
  have v1: "get_version_heuristic widgets_module = Some ''2.0''"
    by code_simp
  have l2: "has_local_file example_env ''pkg.sub'' submodule_module ''/exp'' = Inr False"
    by code_simp
  have n2: "mod_name submodule_module = Some ''pkg.sub''"
    by (simp add: submodule_module_def)
  have v2: "get_version_heuristic submodule_module = None"
    by code_simp
  note t1 = dependency_kept_iff_version_or_top_level [OF l1 n1, THEN conjunct2, THEN conjunct1]
  note t2 = dependency_kept_iff_version_or_top_level [OF l2 n2, THEN conjunct2, THEN conjunct1]
  have r1: "get_dependencies_from_modules example_env [(''widgets'', widgets_module)] ''/exp''
       = Inr [\<lparr>name = ''widgets'', version = Some ''2.0''\<rparr>]"
    using t1 by (simp add: v1)
  have r2: "get_dependencies_from_modules example_env [(''pkg.sub'', submodule_module)] ''/exp''
       = Inr []"
    using t2 by (simp add: v2)
  from l1 n1 r1 l2 n2 r2 show ?thesis
    by (intro conjI)
qed

section \<open>The example environment evaluated\<close>

lemma get_digest_content:
  assumes "file_content e fname = Some content"
  shows "get_digest e fname = Inr (md5_hexdigest e content)"
proof -
  have "0 < 1 * MB"
    by (simp add: MB_def)
  from get_digest_loop_chunks [OF this, of "[]" content] assms show ?thesis
    by (simp add: get_digest_def)
qed

lemma run_digest: "get_digest example_env ''/exp/run.py'' = Inr ''308''"
proof -
  have c: "file_content example_env ''/exp/run.py'' = Some [120, 32, 61, 32, 53, 10]"
    by (simp add: example_env_def)
  have d: "md5_hexdigest example_env [120, 32, 61, 32, 53, 10] = ''308''"
    unfolding example_env_def by code_simp
  from get_digest_content [OF c] d show ?thesis
    by simp
qed

lemma run_source:
  "Source_create example_env (Some ''/exp/run.py'')
     = Inr \<lparr>filename = ''/exp/run.py'', digest = ''308'', repo = None, commit = None,
             is_dirty = None\<rparr>"
proof -
  have a: "abspath (getcwd example_env) ''/exp/run.py'' = ''/exp/run.py''"
    by code_simp
  have p: "get_py_file_if_possible example_env ''/exp/run.py'' = Inr ''/exp/run.py''"
    by code_simp
  have g: "get_commit_if_possible example_env ''/exp/run.py'' = (None, None, None)"
    by code_simp
  have x: "path_exists example_env ''/exp/run.py''"
    by (simp add: example_env_def)
  show ?thesis
    by (simp add: Source_create_def a p g x run_digest)
qed


lemma example_locality:
  "has_local_file example_env ''run'' run_module ''/exp'' = Inr True"
  "has_local_file example_env ''widgets'' widgets_module ''/exp'' = Inr False"
  "has_local_file example_env ''pkg.sub'' submodule_module ''/exp'' = Inr False"
  by code_simp+

lemma example_sources:
  "get_sources_from_modules example_env example_modules ''/exp''
     = Inr [Some \<lparr>filename = ''/exp/run.py'', digest = ''308'', repo = None, commit = None,
                  is_dirty = None\<rparr>]"
proof -
  have f: "mod_file run_module = Some ''/exp/run.py''"
    by (simp add: run_module_def)
  have a: "abspath (getcwd example_env) ''/exp/run.py'' = ''/exp/run.py''"
    by code_simp
  have l: "is_local_source (getcwd example_env) (abspath (getcwd example_env) ''/exp/run.py'')
      ''run'' ''/exp'' = Inr True"
    by code_simp
  have "get_sources_from_modules example_env example_modules ''/exp''
      = get_sources_from_modules_loop example_env
          [(''widgets'', widgets_module), (''pkg.sub'', submodule_module)] ''/exp''
          [Some \<lparr>filename = ''/exp/run.py'', digest = ''308'', repo = None, commit = None,
                  is_dirty = None\<rparr>]"
    unfolding get_sources_from_modules_def example_modules_def
    by (subst sources_step_local [OF f l])
       (simp only: a run_source str_in_sources_def sources_add_def pyset_add_def
          list.set ball_empty bex_empty if_False sum.case append_Nil)
  also have "\<dots> = get_sources_from_modules_loop example_env
          [(''pkg.sub'', submodule_module)] ''/exp''
          [Some \<lparr>filename = ''/exp/run.py'', digest = ''308'', repo = None, commit = None,
                  is_dirty = None\<rparr>]"
    by (rule sources_step_nonlocal [OF example_locality(2)])
  also have "\<dots> = get_sources_from_modules_loop example_env [] ''/exp''
          [Some \<lparr>filename = ''/exp/run.py'', digest = ''308'', repo = None, commit = None,
                  is_dirty = None\<rparr>]"
    by (rule sources_step_nonlocal [OF example_locality(3)])
  finally show ?thesis
    by (simp only: get_sources_from_modules_loop.simps(1))
qed





section \<open>Properties of the orchestrator\<close>

lemma gather_returns:
  assumes "get_main_file e globs = Inr (path, main)"
    and "source_discovery_strategies (DISCOVER_SOURCES e) = Some gs"
    and "gs e globs path = Inr srcs"
    and "dependency_discovery_strategies (DISCOVER_DEPENDENCIES e) = Some gd"
    and "gd e globs path = Inr ds"
  shows "gather_sources_and_dependencies e globs =
           (case numpy e of
              None \<Rightarrow> Inr (main, sources_add e main srcs, ds)
            | Some np \<Rightarrow>
                (case PackageDependency_create np of
                   Inl err \<Rightarrow> Inl err
                 | Inr pdep \<Rightarrow>
                     Inr (main, sources_add e main srcs, dependencies_add e pdep ds)))"
  using assms by (simp add: gather_sources_and_dependencies_def Let_def)

lemma gather_Inr:
  assumes "gather_sources_and_dependencies e globs = Inr (main, sources, deps)"
  shows "\<exists>path gs srcs. get_main_file e globs = Inr (path, main)
           \<and> source_discovery_strategies (DISCOVER_SOURCES e) = Some gs
           \<and> gs e globs path = Inr srcs
           \<and> sources = sources_add e main srcs"
proof (cases "get_main_file e globs")
  case (Inl err)
  with assms show ?thesis
    by (simp add: gather_sources_and_dependencies_def)
next
  case (Inr pm)
  obtain path main' where pm: "pm = (path, main')"
    by (cases pm)
  note mf = Inr [unfolded pm]
  show ?thesis
  proof (cases "source_discovery_strategies (DISCOVER_SOURCES e)")
    case None
    with assms mf show ?thesis
      by (simp add: gather_sources_and_dependencies_def)
  next
    case (Some gs)
    show ?thesis
    proof (cases "gs e globs path")
      case (Inl err)
      with assms mf Some show ?thesis
        by (simp add: gather_sources_and_dependencies_def)
    next
      case srcs: (Inr srcs)
      from assms mf Some srcs have "main = main' \<and> sources = sources_add e main' srcs"
        by (auto simp: gather_sources_and_dependencies_def Let_def
            split: option.splits sum.splits)
      with mf Some srcs show ?thesis
        by auto
    qed
  qed
qed

lemma element_eq_None: "element_eq y None \<longleftrightarrow> y = None"
  by (cases y) (simp_all add: element_eq_def Source_eq_def)

lemma sources_add_None: "None \<in> set (sources_add e None srcs)"
  by (auto simp: sources_add_def pyset_add_def element_eq_None)

lemma get_main_file_without_file:
  assumes "map_of globs ''__file__'' = None"
  shows "get_main_file e globs = Inr (abspath (getcwd e) ''.'', None)"
  using assms by (simp add: get_main_file_def)

lemma get_main_file_with_file:
  assumes "map_of globs ''__file__'' = Some (OStr f)" and "get_main_file e globs = Inr (path, main)"
  shows "\<exists>s. Source_create e (Some f) = Inr s \<and> main = Some s \<and> path = dirname (filename s)"
  using assms by (auto simp: get_main_file_def split: sum.splits)


lemma example_sys_modules: "iterate_sys_modules example_env = example_modules"
  by code_simp

lemma example_sys_sources:
  "get_sources_from_sys_modules example_env globs ''/exp''
     = Inr [Some \<lparr>filename = ''/exp/run.py'', digest = ''308'', repo = None, commit = None,
                  is_dirty = None\<rparr>]"
  by (simp only: get_sources_from_sys_modules_def example_sys_modules example_sources)

lemma example_sys_dependencies:
  "get_dependencies_from_sys_modules example_env globs ''/exp''
     = Inr [\<lparr>name = ''widgets'', version = Some ''2.0''\<rparr>]"
proof -
  have "get_dependencies_from_modules example_env example_modules ''/exp''
     = Inr [\<lparr>name = ''widgets'', version = Some ''2.0''\<rparr>]"
    by code_simp
  then show ?thesis
    by (simp only: get_dependencies_from_sys_modules_def example_sys_modules)
qed

lemma example_strategies:
  "source_discovery_strategies (DISCOVER_SOURCES example_env) = Some get_sources_from_sys_modules"
  "dependency_discovery_strategies (DISCOVER_DEPENDENCIES example_env)
     = Some get_dependencies_from_sys_modules"
  "numpy example_env = None"
  by (simp_all add: example_env_def source_discovery_strategies_def
      dependency_discovery_strategies_def)

lemma example_main_file:
  "get_main_file example_env [(''__file__'', OStr ''/exp/run.py'')]
     = Inr (''/exp'', Some \<lparr>filename = ''/exp/run.py'', digest = ''308'', repo = None,
                             commit = None, is_dirty = None\<rparr>)"
proof -
  have d: "dirname ''/exp/run.py'' = ''/exp''"
    by code_simp
  show ?thesis
    by (simp add: get_main_file_def run_source d)
qed

lemma example_cwd: "abspath (getcwd example_env) ''.'' = ''/exp''"
  by code_simp

text \<open>
  C4. Whenever \<^verbatim>\<open>gather_sources_and_dependencies\<close> returns, the sources it returns are
  the result of the configured source-discovery strategy, run on the namespace and the
  base path of the main file, with the main file added: the returned set holds an element
  equal to it, and under the strategy \<^verbatim>\<open>none\<close> the main file is its only element. For
  a namespace with a \<^verbatim>\<open>__file__\<close>, the main file is the \<^verbatim>\<open>Source\<close> created for it.
  And it does return whenever the main file is found, the two configured strategies
  exist and return, and numpy is not importable.
\<close>

theorem gather_adds_main_file:
  "(gather_sources_and_dependencies e globs = Inr (main, sources, deps) \<longrightarrow>
      (\<exists>path gs srcs. get_main_file e globs = Inr (path, main)
          \<and> source_discovery_strategies (DISCOVER_SOURCES e) = Some gs
          \<and> gs e globs path = Inr srcs
          \<and> sources = sources_add e main srcs)
      \<and> (\<exists>x \<in> set sources. element_hash e x = element_hash e main \<and> element_eq x main)
      \<and> (DISCOVER_SOURCES e = ''none'' \<longrightarrow> sources = [main])
      \<and> (\<forall>f. map_of globs ''__file__'' = Some (OStr f) \<longrightarrow>
            (\<exists>s. Source_create e (Some f) = Inr s \<and> main = Some s)))
   \<and> (get_main_file e globs = Inr (path, main')
        \<and> source_discovery_strategies (DISCOVER_SOURCES e) = Some gs
        \<and> gs e globs path = Inr srcs
        \<and> dependency_discovery_strategies (DISCOVER_DEPENDENCIES e) = Some gd
        \<and> gd e globs path = Inr ds
        \<and> numpy e = None \<longrightarrow>
      gather_sources_and_dependencies e globs = Inr (main', sources_add e main' srcs, ds))"
proof (intro conjI impI allI)
  assume g: "gather_sources_and_dependencies e globs = Inr (main, sources, deps)"
  from gather_Inr [OF g] obtain p gs' srcs' where mf: "get_main_file e globs = Inr (p, main)"
    and st: "source_discovery_strategies (DISCOVER_SOURCES e) = Some gs'"
    and run: "gs' e globs p = Inr srcs'"
    and res: "sources = sources_add e main srcs'"
    by blast
  from mf st run res
  show "\<exists>path gs srcs. get_main_file e globs = Inr (path, main)
          \<and> source_discovery_strategies (DISCOVER_SOURCES e) = Some gs
          \<and> gs e globs path = Inr srcs
          \<and> sources = sources_add e main srcs"
    by (intro exI conjI)
  from sources_add_holds [of e main srcs'] res
  show "\<exists>x \<in> set sources. element_hash e x = element_hash e main \<and> element_eq x main"
    by simp
  show "sources = [main]" if "DISCOVER_SOURCES e = ''none''"
  proof -
    from that st have "gs' = (\<lambda>e globs path. Inr [])"
      by (simp add: source_discovery_strategies_def)
    with run have "srcs' = []"
      by simp
    with res show ?thesis
      by (simp add: sources_add_def pyset_add_def)
  qed
  show "\<exists>s. Source_create e (Some f) = Inr s \<and> main = Some s"
    if "map_of globs ''__file__'' = Some (OStr f)" for f
    using get_main_file_with_file [OF that mf] by blast
next
  assume "get_main_file e globs = Inr (path, main')
        \<and> source_discovery_strategies (DISCOVER_SOURCES e) = Some gs
        \<and> gs e globs path = Inr srcs
        \<and> dependency_discovery_strategies (DISCOVER_DEPENDENCIES e) = Some gd
        \<and> gd e globs path = Inr ds
        \<and> numpy e = None"
  then show "gather_sources_and_dependencies e globs = Inr (main', sources_add e main' srcs, ds)"
    using gather_returns [of e globs path main' gs srcs gd ds] by simp
qed

theorem gather_adds_main_file_witness:
  "get_main_file example_env [(''__file__'', OStr ''/exp/run.py'')]
     = Inr (''/exp'', Some \<lparr>filename = ''/exp/run.py'', digest = ''308'', repo = None,
                             commit = None, is_dirty = None\<rparr>)
   \<and> source_discovery_strategies (DISCOVER_SOURCES example_env)
       = Some get_sources_from_sys_modules
   \<and> get_sources_from_sys_modules example_env [(''__file__'', OStr ''/exp/run.py'')] ''/exp''
       = Inr [Some \<lparr>filename = ''/exp/run.py'', digest = ''308'', repo = None, commit = None,
                    is_dirty = None\<rparr>]
   \<and> dependency_discovery_strategies (DISCOVER_DEPENDENCIES example_env)
       = Some get_dependencies_from_sys_modules
   \<and> get_dependencies_from_sys_modules example_env [(''__file__'', OStr ''/exp/run.py'')] ''/exp''
       = Inr [\<lparr>name = ''widgets'', version = Some ''2.0''\<rparr>]
   \<and> numpy example_env = None
   \<and> gather_sources_and_dependencies example_env [(''__file__'', OStr ''/exp/run.py'')]
       = Inr (Some \<lparr>filename = ''/exp/run.py'', digest = ''308'', repo = None, commit = None,
                    is_dirty = None\<rparr>,
              [Some \<lparr>filename = ''/exp/run.py'', digest = ''308'', repo = None, commit = None,
                     is_dirty = None\<rparr>],
              [\<lparr>name = ''widgets'', version = Some ''2.0''\<rparr>])"
proof -
  let ?run = "\<lparr>filename = ''/exp/run.py'', digest = ''308'', repo = None, commit = None,
                is_dirty = None\<rparr>"
  let ?globs = "[(''__file__'', OStr ''/exp/run.py'')]"
  note hyps = example_main_file example_strategies(1) example_sys_sources [of ?globs]
    example_strategies(2) example_sys_dependencies [of ?globs] example_strategies(3)
  have all: "get_main_file example_env ?globs = Inr (''/exp'', Some ?run)
        \<and> source_discovery_strategies (DISCOVER_SOURCES example_env)
            = Some get_sources_from_sys_modules
        \<and> get_sources_from_sys_modules example_env ?globs ''/exp'' = Inr [Some ?run]
        \<and> dependency_discovery_strategies (DISCOVER_DEPENDENCIES example_env)
            = Some get_dependencies_from_sys_modules
        \<and> get_dependencies_from_sys_modules example_env ?globs ''/exp''
            = Inr [\<lparr>name = ''widgets'', version = Some ''2.0''\<rparr>]
        \<and> numpy example_env = None"
    using hyps by (intro conjI)
  have add: "sources_add example_env (Some ?run) [Some ?run] = [Some ?run]"
    by (simp add: sources_add_def pyset_add_def element_eq_def Source_eq_def)
  have "gather_sources_and_dependencies example_env ?globs
      = Inr (Some ?run, sources_add example_env (Some ?run) [Some ?run],
             [\<lparr>name = ''widgets'', version = Some ''2.0''\<rparr>])"
    by (rule gather_adds_main_file [THEN conjunct2, THEN mp, OF all])
  then have "gather_sources_and_dependencies example_env ?globs
      = Inr (Some ?run, [Some ?run], [\<lparr>name = ''widgets'', version = Some ''2.0''\<rparr>])"
    by (simp only: add)
  with all show ?thesis
    by (intro conjI) (erule conjunct1 | drule conjunct2 | assumption)+
qed

text \<open>
  C10. For a namespace without a \<^verbatim>\<open>__file__\<close> entry, \<^verbatim>\<open>get_main_file\<close> returns the
  working directory and no main file, and whatever
  \<^verbatim>\<open>gather_sources_and_dependencies\<close> returns has \<^verbatim>\<open>main = None\<close> and a sources set
  that contains \<^verbatim>\<open>None\<close>, so not every element of that set is a \<^verbatim>\<open>Source\<close>. The
  call does return whenever the two configured strategies exist and return (numpy not
  importable): the sources are then the strategy's result with \<^verbatim>\<open>None\<close> added, and
  under the two \<^verbatim>\<open>none\<close> strategies the result is \<^verbatim>\<open>(None, {None}, {})\<close>.
\<close>

theorem gather_without_file_adds_None:
  assumes "map_of globs ''__file__'' = None"
  shows "get_main_file e globs = Inr (abspath (getcwd e) ''.'', None)
         \<and> (\<forall>main sources deps.
               gather_sources_and_dependencies e globs = Inr (main, sources, deps) \<longrightarrow>
               main = None \<and> None \<in> set sources \<and> \<not> (\<forall>x \<in> set sources. \<exists>s. x = Some s))
         \<and> (\<forall>gs srcs gd ds.
               source_discovery_strategies (DISCOVER_SOURCES e) = Some gs
               \<and> gs e globs (abspath (getcwd e) ''.'') = Inr srcs
               \<and> dependency_discovery_strategies (DISCOVER_DEPENDENCIES e) = Some gd
               \<and> gd e globs (abspath (getcwd e) ''.'') = Inr ds
               \<and> numpy e = None \<longrightarrow>
               gather_sources_and_dependencies e globs = Inr (None, sources_add e None srcs, ds)
               \<and> None \<in> set (sources_add e None srcs))
         \<and> (DISCOVER_SOURCES e = ''none'' \<and> DISCOVER_DEPENDENCIES e = ''none''
               \<and> numpy e = None \<longrightarrow>
               gather_sources_and_dependencies e globs = Inr (None, [None], []))"
proof (intro conjI allI impI)
  show mf: "get_main_file e globs = Inr (abspath (getcwd e) ''.'', None)"
    using assms by (rule get_main_file_without_file)
  {
    fix main sources deps
    assume g: "gather_sources_and_dependencies e globs = Inr (main, sources, deps)"
    from gather_Inr [OF g] obtain p gs srcs where "get_main_file e globs = Inr (p, main)"
      and res: "sources = sources_add e main srcs"
      by blast
    with mf have none: "main = None"
      by simp
    with res sources_add_None [of e srcs] have mem: "None \<in> set sources"
      by simp
    from none show "main = None" .
    from mem show "None \<in> set sources" .
    from mem show "\<not> (\<forall>x \<in> set sources. \<exists>s. x = Some s)"
      by auto
  }
  {
    fix gs srcs gd ds
    assume h: "source_discovery_strategies (DISCOVER_SOURCES e) = Some gs
               \<and> gs e globs (abspath (getcwd e) ''.'') = Inr srcs
               \<and> dependency_discovery_strategies (DISCOVER_DEPENDENCIES e) = Some gd
               \<and> gd e globs (abspath (getcwd e) ''.'') = Inr ds
               \<and> numpy e = None"
    then show "gather_sources_and_dependencies e globs = Inr (None, sources_add e None srcs, ds)"
      using gather_returns [OF mf, of gs srcs gd ds] by simp
    show "None \<in> set (sources_add e None srcs)"
      by (rule sources_add_None)
  }
  assume n: "DISCOVER_SOURCES e = ''none'' \<and> DISCOVER_DEPENDENCIES e = ''none''
               \<and> numpy e = None"
  then have "source_discovery_strategies (DISCOVER_SOURCES e) = Some (\<lambda>e globs path. Inr [])"
    and "dependency_discovery_strategies (DISCOVER_DEPENDENCIES e) = Some (\<lambda>e globs path. Inr [])"
    by (simp_all add: source_discovery_strategies_def dependency_discovery_strategies_def)
  from gather_returns [OF mf this(1) _ this(2), of "[]" "[]"] n
  show "gather_sources_and_dependencies e globs = Inr (None, [None], [])"
    by (simp add: sources_add_def pyset_add_def)
qed

theorem gather_without_file_adds_None_witness:
  "map_of [(''x'', OOther None)] ''__file__'' = None
   \<and> gather_sources_and_dependencies example_env [(''x'', OOther None)]
       = Inr (None,
              [Some \<lparr>filename = ''/exp/run.py'', digest = ''308'', repo = None, commit = None,
                     is_dirty = None\<rparr>, None],
              [\<lparr>name = ''widgets'', version = Some ''2.0''\<rparr>])"
proof -
  let ?run = "\<lparr>filename = ''/exp/run.py'', digest = ''308'', repo = None, commit = None,
                is_dirty = None\<rparr>"
  let ?globs = "[(''x'', OOther None)]"
  have h: "map_of ?globs ''__file__'' = None"
    by simp
  have all: "source_discovery_strategies (DISCOVER_SOURCES example_env)
            = Some get_sources_from_sys_modules
        \<and> get_sources_from_sys_modules example_env ?globs (abspath (getcwd example_env) ''.'')
            = Inr [Some ?run]
        \<and> dependency_discovery_strategies (DISCOVER_DEPENDENCIES example_env)
            = Some get_dependencies_from_sys_modules
        \<and> get_dependencies_from_sys_modules example_env ?globs
              (abspath (getcwd example_env) ''.'')
            = Inr [\<lparr>name = ''widgets'', version = Some ''2.0''\<rparr>]
        \<and> numpy example_env = None"
    unfolding example_cwd
    using example_strategies(1) example_sys_sources [of ?globs]
      example_strategies(2) example_sys_dependencies [of ?globs] example_strategies(3)
    by (intro conjI)
  have add: "sources_add example_env None [Some ?run] = [Some ?run, None]"
    by (simp add: sources_add_def pyset_add_def element_eq_def Source_eq_def)
  note t = gather_without_file_adds_None [OF h, of example_env, THEN conjunct2, THEN conjunct2,
      THEN conjunct1, rule_format, OF all, THEN conjunct1]
  have "gather_sources_and_dependencies example_env ?globs
      = Inr (None, [Some ?run, None], [\<lparr>name = ''widgets'', version = Some ''2.0''\<rparr>])"
    using t by (simp only: add)
  with h show ?thesis
    by (intro conjI)
qed

end
